theory Spec2Isabelle
  imports Complex_Main
begin

section \<open>Diffraction from a digital micromirror device: the model\<close>

text \<open>
  The source is \<^verbatim>\<open>analysis/simulate_dmd.py\<close>. Its functions are numpy expressions that
  are applied elementwise to arrays of directions; each is embedded here as the scalar
  kernel it applies to one direction. Floating-point numbers are embedded as exact reals.
  Where the source itself produces or tests a not-a-number (a square root of a negative
  number, \<^verbatim>\<open>np.isnan\<close>), a float is a \<open>real option\<close> and \<open>None\<close> is NaN. Divisors are
  named in the hypotheses of the theorems wherever the source divides by a parameter.
\<close>

subsection \<open>Values and errors\<close>

type_synonym vec3 = "real \<times> real \<times> real"

text \<open>A float that may be NaN, and a vector of such floats.\<close>

type_synonym npfloat = "real option"

type_synonym fvec3 = "npfloat \<times> npfloat \<times> npfloat"

datatype py_error = TypeError | ValueError | ZeroDivisionError

definition fvec :: "vec3 \<Rightarrow> fvec3" where
  "fvec v = (case v of (x, y, z) \<Rightarrow> (Some x, Some y, Some z))"

definition norm2 :: "vec3 \<Rightarrow> real" where
  "norm2 v = (case v of (x, y, z) \<Rightarrow> x\<^sup>2 + y\<^sup>2 + z\<^sup>2)"

subsection \<open>Coordinate systems\<close>

text \<open>\<^verbatim>\<open>xyz2mirror(vx, vy, vz, gamma)\<close>: components along the mirror frame e1, e2, e3.\<close>

definition xyz2mirror :: "real \<Rightarrow> real \<Rightarrow> real \<Rightarrow> real \<Rightarrow> vec3" where
  "xyz2mirror vx vy vz gamma =
    (let v1 = cos gamma / sqrt 2 * (vx - vy) - sin gamma * vz;
         v2 = 1 / sqrt 2 * (vx + vy);
         v3 = sin gamma / sqrt 2 * (vx - vy) + cos gamma * vz
     in (v1, v2, v3))"

text \<open>\<^verbatim>\<open>mirror2xyz(v1, v2, v3, gamma)\<close>.\<close>

definition mirror2xyz :: "real \<Rightarrow> real \<Rightarrow> real \<Rightarrow> real \<Rightarrow> vec3" where
  "mirror2xyz v1 v2 v3 gamma =
    (let vx = cos gamma / sqrt 2 * v1 + 1 / sqrt 2 * v2 + sin gamma / sqrt 2 * v3;
         vy = - cos gamma / sqrt 2 * v1 + 1 / sqrt 2 * v2 - sin gamma / sqrt 2 * v3;
         vz = - sin gamma * v1 + cos gamma * v3
     in (vx, vy, vz))"

subsection \<open>Blaze condition\<close>

text \<open>
  \<^verbatim>\<open>solve_blaze_output(uvecs_in, gamma)\<close>, for one row of \<^verbatim>\<open>uvecs_in\<close>: to mirror
  coordinates, the third component negated, and back.
\<close>

definition solve_blaze_output :: "vec3 \<Rightarrow> real \<Rightarrow> vec3" where
  "solve_blaze_output uvecs_in gamma =
    (case uvecs_in of (ux, uy, uz) \<Rightarrow>
      (case xyz2mirror ux uy uz gamma of (a1, a2, a3) \<Rightarrow>
        mirror2xyz a1 a2 (- a3) gamma))"

text \<open>\<^verbatim>\<open>solve_blaze_input(uvecs_out, gamma)\<close> returns \<^verbatim>\<open>solve_blaze_output(uvecs_out, gamma)\<close>.\<close>

definition solve_blaze_input :: "vec3 \<Rightarrow> real \<Rightarrow> vec3" where
  "solve_blaze_input uvecs_out gamma = solve_blaze_output uvecs_out gamma"

text \<open>The default swivel axis \<^verbatim>\<open>n_vec=(1/np.sqrt(2), 1/np.sqrt(2), 0)\<close>.\<close>

definition n_vec_default :: vec3 where
  "n_vec_default = (1 / sqrt 2, 1 / sqrt 2, 0)"

text \<open>\<^verbatim>\<open>sinc_fn(x)\<close>: \<^verbatim>\<open>sin(x) / x\<close>, and the entry where \<^verbatim>\<open>x == 0\<close> is set to 1.\<close>

definition sinc_fn :: "real \<Rightarrow> real" where
  "sinc_fn x = (if x = 0 then 1 else sin x / x)"

text \<open>
  \<^verbatim>\<open>blaze_condition_fn(gamma, amb, mode, n_vec)\<close>; any mode other than \<^verbatim>\<open>'plus'\<close> and
  \<^verbatim>\<open>'minus'\<close> raises \<^verbatim>\<open>ValueError\<close>.
\<close>

definition blaze_condition_fn :: "real \<Rightarrow> vec3 \<Rightarrow> string \<Rightarrow> vec3 \<Rightarrow> py_error + real" where
  "blaze_condition_fn gamma amb mode n_vec =
    (case n_vec of (nx, ny, nz) \<Rightarrow>
      (case amb of (amb0, amb1, amb2) \<Rightarrow>
        if mode = ''plus'' then
          Inr ((nx\<^sup>2 * (1 - cos gamma) + cos gamma) * amb0 +
               (nx * ny * (1 - cos gamma) + nz * sin gamma) * amb1 +
               (nx * nz * (1 - cos gamma) - ny * sin gamma) * amb2)
        else if mode = ''minus'' then
          Inr ((nx * ny * (1 - cos gamma) - nz * sin gamma) * amb0 +
               (ny\<^sup>2 * (1 - cos gamma) + cos gamma) * amb1 +
               (ny * nz * (1 - cos gamma) + nx * sin gamma) * amb2)
        else Inl ValueError))"

text \<open>\<^verbatim>\<open>blaze_envelope(wavelength, gamma, wx, wy, a_minus_b, n_vec)\<close>.\<close>

definition blaze_envelope ::
  "real \<Rightarrow> real \<Rightarrow> real \<Rightarrow> real \<Rightarrow> vec3 \<Rightarrow> vec3 \<Rightarrow> py_error + real" where
  "blaze_envelope wavelength gamma wx wy a_minus_b n_vec =
    (let k = 2 * pi / wavelength in
      (case blaze_condition_fn gamma a_minus_b ''plus'' n_vec of
         Inl e \<Rightarrow> Inl e
       | Inr A_p \<Rightarrow>
          (case blaze_condition_fn gamma a_minus_b ''minus'' n_vec of
             Inl e \<Rightarrow> Inl e
           | Inr A_m \<Rightarrow> Inr (sinc_fn (0.5 * k * wx * A_p) * sinc_fn (0.5 * k * wy * A_m)))))"

text \<open>
  The quantities \<open>A\<^sub>+\<close> and \<open>A\<^sub>-\<close> as the documentation of \<^verbatim>\<open>blaze_condition_fn\<close> and the
  specification write them, for the default swivel axis:
  \<^verbatim>\<open>A_\pm = 0.5*(1 \pm cos(gamma))*(a-b)_x + 0.5*(1 \mp cos(gamma))*(a-b)_y \mp sin(gamma)/sqrt(2)*(a-b)_z\<close>.
\<close>

definition spec_A_plus :: "real \<Rightarrow> vec3 \<Rightarrow> real" where
  "spec_A_plus gamma amb = (case amb of (x, y, z) \<Rightarrow>
     0.5 * (1 + cos gamma) * x + 0.5 * (1 - cos gamma) * y - sin gamma / sqrt 2 * z)"

definition spec_A_minus :: "real \<Rightarrow> vec3 \<Rightarrow> real" where
  "spec_A_minus gamma amb = (case amb of (x, y, z) \<Rightarrow>
     0.5 * (1 - cos gamma) * x + 0.5 * (1 + cos gamma) * y + sin gamma / sqrt 2 * z)"

text \<open>
  The envelope as the specification words it, with the prefactor \<open>wx * wy\<close>, to be
  compared with \<open>blaze_envelope\<close>.
\<close>

definition spec_blaze_envelope :: "real \<Rightarrow> real \<Rightarrow> real \<Rightarrow> real \<Rightarrow> vec3 \<Rightarrow> real" where
  "spec_blaze_envelope wavelength gamma wx wy amb =
    (let k = 2 * pi / wavelength in
      wx * wy * sinc_fn (0.5 * k * wx * spec_A_plus gamma amb)
              * sinc_fn (0.5 * k * wy * spec_A_minus gamma amb))"

definition vsub :: "vec3 \<Rightarrow> vec3 \<Rightarrow> vec3" where
  "vsub a b = (case a of (a0, a1, a2) \<Rightarrow> (case b of (b0, b1, b2) \<Rightarrow> (a0 - b0, a1 - b1, a2 - b2)))"

subsection \<open>Angles and unit vectors\<close>

text \<open>
  \<^verbatim>\<open>uvector2txty(vx, vy, vz)\<close>. The source divides by \<^verbatim>\<open>vz\<close>; the theorems below use it
  only where \<^verbatim>\<open>vz\<close> is not zero.
\<close>

definition uvector2txty :: "real \<Rightarrow> real \<Rightarrow> real \<Rightarrow> real \<times> real" where
  "uvector2txty vx vy vz =
    (let norm_factor = \<bar>1 / vz\<bar>;
         tx = arctan (vx * norm_factor);
         ty = arctan (vy * norm_factor)
     in (tx, ty))"

text \<open>
  \<^verbatim>\<open>get_unit_vector(tx, ty, mode)\<close>; any mode other than \<^verbatim>\<open>'in'\<close> and \<^verbatim>\<open>'out'\<close> raises
  \<^verbatim>\<open>ValueError\<close>. The argument of the square root is at least 1.
\<close>

definition get_unit_vector :: "real \<Rightarrow> real \<Rightarrow> string \<Rightarrow> py_error + vec3" where
  "get_unit_vector tx ty mode =
    (let norm = sqrt ((tan tx)\<^sup>2 + (tan ty)\<^sup>2 + 1) in
      if mode = ''in'' then Inr (tan tx / norm, tan ty / norm, - 1 / norm)
      else if mode = ''out'' then Inr (tan tx / norm, tan ty / norm, 1 / norm)
      else Inl ValueError)"

text \<open>The two calls composed: the angles read back from the unit vector, when there is one.\<close>

definition txty_of_unit_vector :: "real \<Rightarrow> real \<Rightarrow> string \<Rightarrow> py_error + real \<times> real" where
  "txty_of_unit_vector tx ty mode =
    (case get_unit_vector tx ty mode of
       Inl e \<Rightarrow> Inl e
     | Inr (vx, vy, vz) \<Rightarrow> Inr (uvector2txty vx vy vz))"

subsection \<open>Floats with NaN\<close>

text \<open>
  IEEE arithmetic on floats that may be NaN: every operation with a NaN operand is NaN,
  the square root of a negative number is NaN, and every comparison with NaN is false.
\<close>

definition NaN :: npfloat where
  "NaN = None"

definition np_isnan :: "npfloat \<Rightarrow> bool" where
  "np_isnan a = (a = None)"

definition np_lift2 :: "(real \<Rightarrow> real \<Rightarrow> real) \<Rightarrow> npfloat \<Rightarrow> npfloat \<Rightarrow> npfloat" where
  "np_lift2 f a b =
    (case a of None \<Rightarrow> None | Some x \<Rightarrow> (case b of None \<Rightarrow> None | Some y \<Rightarrow> Some (f x y)))"

definition np_add :: "npfloat \<Rightarrow> npfloat \<Rightarrow> npfloat" where
  "np_add = np_lift2 (+)"

definition np_sub :: "npfloat \<Rightarrow> npfloat \<Rightarrow> npfloat" where
  "np_sub = np_lift2 (-)"

definition np_mul :: "npfloat \<Rightarrow> npfloat \<Rightarrow> npfloat" where
  "np_mul = np_lift2 (*)"

definition np_neg :: "npfloat \<Rightarrow> npfloat" where
  "np_neg a = map_option uminus a"

definition np_sqrt :: "npfloat \<Rightarrow> npfloat" where
  "np_sqrt a = (case a of None \<Rightarrow> None | Some x \<Rightarrow> if x < 0 then None else Some (sqrt x))"

subsection \<open>Grating equation\<close>

text \<open>
  \<^verbatim>\<open>solve_diffraction_input(uvecs_out, dx, dy, wavelength, order)\<close>, for one row of
  \<^verbatim>\<open>uvecs_out\<close>.
\<close>

definition solve_diffraction_input ::
  "fvec3 \<Rightarrow> real \<Rightarrow> real \<Rightarrow> real \<Rightarrow> int \<times> int \<Rightarrow> fvec3" where
  "solve_diffraction_input uvecs_out dx dy wavelength order =
    (case uvecs_out of (u0, u1, u2) \<Rightarrow>
      (let a_x = np_add u0 (Some (wavelength / dx * real_of_int (fst order)));
           a_y = np_add u1 (Some (wavelength / dy * real_of_int (snd order)));
           a_z = np_neg (np_sqrt (np_sub (np_sub (Some 1) (np_mul a_x a_x)) (np_mul a_y a_y)))
       in (a_x, a_y, a_z)))"

text \<open>
  \<^verbatim>\<open>solve_diffraction_output(uvecs_in, dx, dy, wavelength, order)\<close>, for one row of
  \<^verbatim>\<open>uvecs_in\<close>; the two assignments \<^verbatim>\<open>bx[np.isnan(bz)] = np.nan\<close> and
  \<^verbatim>\<open>by[np.isnan(bz)] = np.nan\<close> follow the square root.
\<close>

definition solve_diffraction_output ::
  "fvec3 \<Rightarrow> real \<Rightarrow> real \<Rightarrow> real \<Rightarrow> int \<times> int \<Rightarrow> fvec3" where
  "solve_diffraction_output uvecs_in dx dy wavelength order =
    (case uvecs_in of (u0, u1, u2) \<Rightarrow>
      (let b_x = np_sub u0 (Some (wavelength / dx * real_of_int (fst order)));
           b_y = np_sub u1 (Some (wavelength / dy * real_of_int (snd order)));
           b_z = np_sqrt (np_sub (np_sub (Some 1) (np_mul b_x b_x)) (np_mul b_y b_y));
           b_x = (if np_isnan b_z then NaN else b_x);
           b_y = (if np_isnan b_z then NaN else b_y)
       in (b_x, b_y, b_z)))"

subsection \<open>Blaze and grating conditions together\<close>

text \<open>
  \<^verbatim>\<open>get_diffraction_order_limits(wavelength, d, gamma)\<close> returns
  \<^verbatim>\<open>np.array([nmin, nmax])\<close>. The angle is a float that may be NaN, for which neither
  \<^verbatim>\<open>gamma > 0\<close> nor \<^verbatim>\<open>gamma <= 0\<close> holds, so that the last branch is taken.
\<close>

definition get_diffraction_order_limits :: "real \<Rightarrow> real \<Rightarrow> npfloat \<Rightarrow> py_error + int \<times> int" where
  "get_diffraction_order_limits wavelength d gamma =
    (case gamma of
       None \<Rightarrow> Inl ValueError
     | Some g \<Rightarrow>
        if g > 0 then
          (let nmax = \<lfloor>d / wavelength * sqrt 2 * sin g\<rfloor>; nmin = 1 in Inr (nmin, nmax))
        else if g \<le> 0 then
          (let nmax = - 1; nmin = \<lceil>d / wavelength * sqrt 2 * sin g\<rceil> in Inr (nmin, nmax))
        else Inl ValueError)"

text \<open>
  \<^verbatim>\<open>solve_combined_condition(d, gamma, wavelength, order)\<close> returns the closures
  \<^verbatim>\<open>a_fn\<close>, \<^verbatim>\<open>b_fn\<close> and the array \<^verbatim>\<open>a2_bounds\<close>. The closures share \<^verbatim>\<open>a3\<close> and
  \<^verbatim>\<open>gamma\<close>, which are parameters here.
\<close>

definition combined_a3 :: "real \<Rightarrow> real \<Rightarrow> real \<Rightarrow> int \<Rightarrow> real" where
  "combined_a3 d gamma wavelength order =
    1 / sqrt 2 / sin gamma * wavelength / d * real_of_int order"

definition a1_positive_fn :: "real \<Rightarrow> real \<Rightarrow> npfloat" where
  "a1_positive_fn a3 a2 = np_sqrt (Some (1 - a2\<^sup>2 - a3\<^sup>2))"

definition a1_signed :: "real \<Rightarrow> real \<Rightarrow> bool \<Rightarrow> npfloat" where
  "a1_signed a3 a2 positive =
    (let a1 = a1_positive_fn a3 a2 in if \<not> positive then np_neg a1 else a1)"

definition ax_fn :: "real \<Rightarrow> real \<Rightarrow> real \<Rightarrow> bool \<Rightarrow> npfloat" where
  "ax_fn gamma a3 a2 positive =
    np_add (np_add (np_mul (Some (cos gamma / sqrt 2)) (a1_signed a3 a2 positive))
                   (Some (1 / sqrt 2 * a2)))
           (Some (sin gamma / sqrt 2 * a3))"

definition ay_fn :: "real \<Rightarrow> real \<Rightarrow> real \<Rightarrow> bool \<Rightarrow> npfloat" where
  "ay_fn gamma a3 a2 positive =
    np_sub (np_add (np_mul (Some (- cos gamma / sqrt 2)) (a1_signed a3 a2 positive))
                   (Some (1 / sqrt 2 * a2)))
           (Some (sin gamma / sqrt 2 * a3))"

definition az_fn :: "real \<Rightarrow> real \<Rightarrow> real \<Rightarrow> bool \<Rightarrow> npfloat" where
  "az_fn gamma a3 a2 positive =
    np_add (np_mul (Some (- sin gamma)) (a1_signed a3 a2 positive)) (Some (cos gamma * a3))"

definition bx_fn :: "real \<Rightarrow> real \<Rightarrow> real \<Rightarrow> bool \<Rightarrow> npfloat" where
  "bx_fn gamma a3 a2 positive =
    np_sub (np_add (np_mul (Some (cos gamma / sqrt 2)) (a1_signed a3 a2 positive))
                   (Some (1 / sqrt 2 * a2)))
           (Some (sin gamma / sqrt 2 * a3))"

definition by_fn :: "real \<Rightarrow> real \<Rightarrow> real \<Rightarrow> bool \<Rightarrow> npfloat" where
  "by_fn gamma a3 a2 positive =
    np_add (np_add (np_mul (Some (- cos gamma / sqrt 2)) (a1_signed a3 a2 positive))
                   (Some (1 / sqrt 2 * a2)))
           (Some (sin gamma / sqrt 2 * a3))"

definition bz_fn :: "real \<Rightarrow> real \<Rightarrow> real \<Rightarrow> bool \<Rightarrow> npfloat" where
  "bz_fn gamma a3 a2 positive =
    np_sub (np_mul (Some (- sin gamma)) (a1_signed a3 a2 positive)) (Some (cos gamma * a3))"

definition solve_combined_condition ::
  "real \<Rightarrow> real \<Rightarrow> real \<Rightarrow> int \<Rightarrow>
     (real \<Rightarrow> bool \<Rightarrow> fvec3) \<times> (real \<Rightarrow> bool \<Rightarrow> fvec3) \<times> (npfloat \<times> npfloat)" where
  "solve_combined_condition d gamma wavelength order =
    (let a3 = combined_a3 d gamma wavelength order;
         a2_bounds = (np_neg (np_sqrt (Some (1 - a3\<^sup>2))), np_sqrt (Some (1 - a3\<^sup>2)));
         a_fn = (\<lambda>a2 positive.
                   (ax_fn gamma a3 a2 positive, ay_fn gamma a3 a2 positive, az_fn gamma a3 a2 positive));
         b_fn = (\<lambda>a2 positive.
                   (bx_fn gamma a3 a2 positive, by_fn gamma a3 a2 positive, bz_fn gamma a3 a2 positive))
     in (a_fn, b_fn, a2_bounds))"

subsection \<open>Arrays\<close>

text \<open>
  A two-dimensional array is the list of its rows; \<^verbatim>\<open>pattern.shape\<close> is \<open>(ny, nx)\<close>. The
  arrays of the source are rectangular, which the theorems state as \<open>rect\<close>.
\<close>

type_synonym 'a matrix = "'a list list"

definition ncols :: "'a matrix \<Rightarrow> nat" where
  "ncols m = (case m of [] \<Rightarrow> 0 | r # _ \<Rightarrow> length r)"

definition rect :: "nat \<Rightarrow> nat \<Rightarrow> 'a matrix \<Rightarrow> bool" where
  "rect ny nx m = (length m = ny \<and> list_all (\<lambda>r. length r = nx) m)"

text \<open>\<^verbatim>\<open>np.sum\<close> of a two-dimensional complex array.\<close>

definition np_sum :: "complex matrix \<Rightarrow> complex" where
  "np_sum m = sum_list (map sum_list m)"

text \<open>\<^verbatim>\<open>np.zeros((ny, nx))\<close>.\<close>

definition np_zeros :: "nat \<Rightarrow> nat \<Rightarrow> real matrix" where
  "np_zeros ny nx = replicate ny (replicate nx 0)"

text \<open>The results of a list of calls, up to the first one that raises.\<close>

primrec collect :: "('e + 'a) list \<Rightarrow> 'e + 'a list" where
  "collect [] = Inr []"
| "collect (x # xs) =
    (case x of
       Inl e \<Rightarrow> Inl e
     | Inr v \<Rightarrow> (case collect xs of Inl e \<Rightarrow> Inl e | Inr vs \<Rightarrow> Inr (v # vs)))"

subsection \<open>Brute-force simulation\<close>

text \<open>
  A complex float that is NaN. The sum of an array of complex NaN is NaN when the array
  has at least one entry, and the sum of an empty array is 0.
\<close>

definition cNaN :: "complex option" where
  "cNaN = None"

definition nan_sum :: "nat \<Rightarrow> nat \<Rightarrow> complex option" where
  "nan_sum ny nx = (if ny * nx = 0 then Some 0 else cNaN)"

text \<open>
  The closure \<^verbatim>\<open>calc_output_angle(bvec)\<close> of \<^verbatim>\<open>simulate_dmd\<close>, with the variables it
  captures as parameters. It returns \<^verbatim>\<open>efields, sinc_efield_on, sinc_efield_off,
  diffraction_efield\<close>. When a component of \<^verbatim>\<open>bvec\<close> is NaN, so is that component of
  \<^verbatim>\<open>amb\<close>, and with it every phase (the product of NaN with any number, also 0, is NaN)
  and both envelopes.
\<close>

definition calc_output_angle ::
  "real matrix \<Rightarrow> real \<Rightarrow> real \<Rightarrow> real \<Rightarrow> real \<Rightarrow> real \<Rightarrow> real \<Rightarrow> real \<Rightarrow> vec3 \<Rightarrow> real matrix
     \<Rightarrow> fvec3 \<Rightarrow> py_error + (complex option \<times> npfloat \<times> npfloat \<times> complex option)" where
  "calc_output_angle pattern wavelength gamma_on gamma_off dx dy wx wy uvec_in zshifts bvec =
    (let ny = length pattern; nx = ncols pattern in
      (case uvec_in of (a0, a1, a2) \<Rightarrow>
        (case (np_sub (Some a0) (fst bvec), np_sub (Some a1) (fst (snd bvec)),
               np_sub (Some a2) (snd (snd bvec))) of
           (Some amb0, Some amb1, Some amb2) \<Rightarrow>
             (let phases = map (\<lambda>my. map (\<lambda>mx.
                    exp (\<i> * complex_of_real (2 * pi / wavelength *
                      (dx * real mx * amb0 + dy * real my * amb1 + zshifts ! my ! mx * amb2))))
                    [0..<nx]) [0..<ny];
                  diffraction_efield = np_sum phases
              in (case blaze_envelope wavelength gamma_on wx wy (amb0, amb1, amb2) n_vec_default of
                    Inl e \<Rightarrow> Inl e
                  | Inr env_on \<Rightarrow>
                     (case blaze_envelope wavelength gamma_off wx wy (amb0, amb1, amb2) n_vec_default of
                        Inl e \<Rightarrow> Inl e
                      | Inr env_off \<Rightarrow>
                         (let sinc_efield_on = wx * wy * env_on;
                              sinc_efield_off = wx * wy * env_off;
                              mask_phases = map (\<lambda>my. map (\<lambda>mx.
                                complex_of_real
                                  (if pattern ! my ! mx = 1 then sinc_efield_on
                                   else if pattern ! my ! mx = 0 then sinc_efield_off else 0)
                                * phases ! my ! mx) [0..<nx]) [0..<ny];
                              efields = np_sum mask_phases
                          in Inr (Some efields, Some sinc_efield_on, Some sinc_efield_off,
                                  Some diffraction_efield)))))
         | _ \<Rightarrow> Inr (nan_sum ny nx, NaN, NaN, nan_sum ny nx))))"

text \<open>
  \<^verbatim>\<open>simulate_dmd(pattern, wavelength, gamma_on, gamma_off, dx, dy, wx, wy, uvec_in,
  uvecs_out, zshifts=None)\<close>, with \<^verbatim>\<open>uvecs_out\<close> the list of its rows. The two checks come
  first. The results of the calls are transposed by \<^verbatim>\<open>zip(*results)\<close> and unpacked into
  four names, which raises \<^verbatim>\<open>ValueError\<close> when there is no result.
\<close>

definition simulate_dmd ::
  "real matrix \<Rightarrow> real \<Rightarrow> real \<Rightarrow> real \<Rightarrow> real \<Rightarrow> real \<Rightarrow> real \<Rightarrow> real \<Rightarrow> vec3 \<Rightarrow> fvec3 list
     \<Rightarrow> real matrix option
     \<Rightarrow> py_error + (complex option list \<times> npfloat list \<times> npfloat list \<times> complex option list)" where
  "simulate_dmd pattern wavelength gamma_on gamma_off dx dy wx wy uvec_in uvecs_out zshifts =
    (if \<not> list_all (list_all (\<lambda>p. p = 0 \<or> p = 1)) pattern then Inl TypeError
     else if dx < wx \<or> dy < wy then Inl ValueError
     else
      (let zshifts = (case zshifts of None \<Rightarrow> np_zeros (length pattern) (ncols pattern) | Some z \<Rightarrow> z) in
        (case collect (map (calc_output_angle pattern wavelength gamma_on gamma_off dx dy wx wy
                               uvec_in zshifts) uvecs_out) of
           Inl e \<Rightarrow> Inl e
         | Inr results \<Rightarrow>
            if results = [] then Inl ValueError
            else Inr (map fst results, map (fst \<circ> snd) results, map (fst \<circ> snd \<circ> snd) results,
                      map (snd \<circ> snd \<circ> snd) results))))"

subsection \<open>Simulation with the discrete Fourier transform\<close>

text \<open>
  \<^verbatim>\<open>numpy.fft.fftfreq(n)\<close>: \<^verbatim>\<open>val = 1.0 / (n * d)\<close> with \<^verbatim>\<open>d = 1.0\<close>,
  \<^verbatim>\<open>N = (n - 1) // 2 + 1\<close>, the first \<open>N\<close> entries are \<^verbatim>\<open>arange(0, N)\<close>, the others
  \<^verbatim>\<open>arange(-(n // 2), 0)\<close>, all multiplied by \<^verbatim>\<open>val\<close>.
\<close>

definition fftfreq :: "nat \<Rightarrow> py_error + real list" where
  "fftfreq n =
    (if n = 0 then Inl ZeroDivisionError
     else
      (let val = 1 / real n; N = (n - 1) div 2 + 1 in
        Inr (map (\<lambda>i. real_of_int (if i < N then int i else - int (n div 2) + (int i - int N)) * val)
               [0..<n])))"

text \<open>
  \<^verbatim>\<open>numpy.fft.fftshift\<close> is \<^verbatim>\<open>roll(x, n // 2)\<close> and \<^verbatim>\<open>numpy.fft.ifftshift\<close> is
  \<^verbatim>\<open>roll(x, -(n // 2))\<close>, along every axis.
\<close>

definition fftshift :: "'a list \<Rightarrow> 'a list" where
  "fftshift xs = rotate (length xs - length xs div 2) xs"

definition ifftshift :: "'a list \<Rightarrow> 'a list" where
  "ifftshift xs = rotate (length xs div 2) xs"

definition fftshift2 :: "'a matrix \<Rightarrow> 'a matrix" where
  "fftshift2 m = fftshift (map fftshift m)"

definition ifftshift2 :: "'a matrix \<Rightarrow> 'a matrix" where
  "ifftshift2 m = ifftshift (map ifftshift m)"

text \<open>
  \<^verbatim>\<open>numpy.fft.fft2\<close>, by its definition:
  \<open>A\<^sub>k\<^sub>l = \<Sum>\<^sub>m \<Sum>\<^sub>n a\<^sub>m\<^sub>n exp (- 2 pi i (m k / M + n l / N))\<close>.
\<close>

definition fft2 :: "complex matrix \<Rightarrow> complex matrix" where
  "fft2 a =
    (let ny = length a; nx = ncols a in
      map (\<lambda>ky. map (\<lambda>kx.
        np_sum (map (\<lambda>my. map (\<lambda>mx.
          a ! my ! mx * exp (- (2 * complex_of_real pi * \<i>
             * complex_of_real (real my * real ky / real ny + real mx * real kx / real nx))))
          [0..<nx]) [0..<ny])) [0..<nx]) [0..<ny])"

text \<open>Elementwise \<^verbatim>\<open>pattern * efield_profile\<close> and \<^verbatim>\<open>(1 - pattern) * efield_profile\<close>.\<close>

definition times_profile :: "real matrix \<Rightarrow> complex matrix \<Rightarrow> complex matrix" where
  "times_profile m efield_profile =
    map (\<lambda>(r, e). map (\<lambda>(p, c). complex_of_real p * c) (zip r e)) (zip m efield_profile)"

definition complement :: "real matrix \<Rightarrow> real matrix" where
  "complement m = map (map (\<lambda>p. 1 - p)) m"

text \<open>
  The entry \<open>(iy, ix)\<close> of the arrays \<^verbatim>\<open>efields, sinc_efield_on, sinc_efield_off, bvec\<close>
  of \<^verbatim>\<open>simulate_dmd_dft\<close>. The square root in \<^verbatim>\<open>bvec\<close> is NaN for a negative argument, and
  then so are \<^verbatim>\<open>amb\<close>, the envelopes and the field of that entry.
\<close>

definition dft_entry ::
  "complex matrix \<Rightarrow> complex matrix \<Rightarrow> real list \<Rightarrow> real list \<Rightarrow> real \<Rightarrow> real \<Rightarrow> real
     \<Rightarrow> real \<Rightarrow> real \<Rightarrow> real \<Rightarrow> real \<Rightarrow> vec3 \<Rightarrow> int \<times> int \<Rightarrow> nat \<Rightarrow> nat
     \<Rightarrow> py_error + (complex option \<times> npfloat \<times> npfloat \<times> fvec3)" where
  "dft_entry pattern_dft pattern_complement_dft fxs fys wavelength gamma_on gamma_off dx dy wx wy
      uvec_in order iy ix =
    (case order of (order_x, order_y) \<Rightarrow>
      (case uvec_in of (a0, a1, a2) \<Rightarrow>
        (let amb_x = wavelength / dx * (real_of_int order_x + fxs ! ix);
             amb_y = wavelength / dy * (real_of_int order_y + fys ! iy);
             b_x = a0 - amb_x;
             b_y = a1 - amb_y;
             b_z = np_sqrt (Some (1 - b_x\<^sup>2 - b_y\<^sup>2));
             bvec = (Some b_x, Some b_y, b_z)
         in (case np_sub (Some a2) b_z of
               None \<Rightarrow> Inr (cNaN, NaN, NaN, bvec)
             | Some amb2 \<Rightarrow>
                (case blaze_envelope wavelength gamma_on wx wy (a0 - b_x, a1 - b_y, amb2) n_vec_default of
                   Inl e \<Rightarrow> Inl e
                 | Inr env_on \<Rightarrow>
                    (case blaze_envelope wavelength gamma_off wx wy (a0 - b_x, a1 - b_y, amb2) n_vec_default of
                       Inl e \<Rightarrow> Inl e
                     | Inr env_off \<Rightarrow>
                        (let sinc_efield_on = wx * wy * env_on;
                             sinc_efield_off = wx * wy * env_off;
                             efields = pattern_dft ! iy ! ix * complex_of_real sinc_efield_on
                                     + pattern_complement_dft ! iy ! ix * complex_of_real sinc_efield_off
                         in Inr (Some efields, Some sinc_efield_on, Some sinc_efield_off, bvec))))))))"

text \<open>
  \<^verbatim>\<open>simulate_dmd_dft(pattern, efield_profile, wavelength, gamma_on, gamma_off, dx, dy, wx,
  wy, uvec_in, order)\<close> returns \<^verbatim>\<open>efields, pattern_dft, pattern_complement_dft,
  sinc_efield_on, sinc_efield_off, bvec\<close>.
\<close>

definition simulate_dmd_dft ::
  "real matrix \<Rightarrow> complex matrix \<Rightarrow> real \<Rightarrow> real \<Rightarrow> real \<Rightarrow> real \<Rightarrow> real \<Rightarrow> real \<Rightarrow> real
     \<Rightarrow> vec3 \<Rightarrow> int \<times> int
     \<Rightarrow> py_error + (complex option matrix \<times> complex matrix \<times> complex matrix
                     \<times> npfloat matrix \<times> npfloat matrix \<times> fvec3 matrix)" where
  "simulate_dmd_dft pattern efield_profile wavelength gamma_on gamma_off dx dy wx wy uvec_in order =
    (let ny = length pattern; nx = ncols pattern in
      (case fftfreq nx of
         Inl e \<Rightarrow> Inl e
       | Inr freqs_x \<Rightarrow>
          (case fftfreq ny of
             Inl e \<Rightarrow> Inl e
           | Inr freqs_y \<Rightarrow>
              (let fxs = fftshift freqs_x;
                   fys = fftshift freqs_y;
                   pattern_dft = fftshift2 (fft2 (ifftshift2 (times_profile pattern efield_profile)));
                   pattern_complement_dft =
                     fftshift2 (fft2 (ifftshift2 (times_profile (complement pattern) efield_profile)))
               in (case collect (map (\<lambda>iy. collect (map (\<lambda>ix.
                         dft_entry pattern_dft pattern_complement_dft fxs fys wavelength gamma_on
                           gamma_off dx dy wx wy uvec_in order iy ix) [0..<nx])) [0..<ny]) of
                     Inl e \<Rightarrow> Inl e
                   | Inr cells \<Rightarrow>
                      Inr (map (map fst) cells, pattern_dft, pattern_complement_dft,
                           map (map (fst \<circ> snd)) cells, map (map (fst \<circ> snd \<circ> snd)) cells,
                           map (map (snd \<circ> snd \<circ> snd)) cells))))))"

subsection \<open>Roots of unity\<close>

text \<open>
  The complex number \<open>exp (2 pi i z / n)\<close>, in which the phases of both simulations are
  expressed in the proofs.
\<close>

definition twiddle :: "nat \<Rightarrow> int \<Rightarrow> complex" where
  "twiddle n z = cis (2 * pi * real_of_int z / real n)"

subsection \<open>Notions of the statements\<close>

text \<open>
  The value of \<^verbatim>\<open>blaze_envelope\<close> for the default swivel axis, the entry of
  \<^verbatim>\<open>mask_phases\<close> before the multiplication by the phase, and the phase factor that the
  two rotations \<^verbatim>\<open>fftshift\<close> and \<^verbatim>\<open>ifftshift\<close> bring into the centred transform.
\<close>

definition envelope_value :: "real \<Rightarrow> real \<Rightarrow> real \<Rightarrow> real \<Rightarrow> vec3 \<Rightarrow> real" where
  "envelope_value wavelength gamma wx wy amb =
     sinc_fn (0.5 * (2 * pi / wavelength) * wx * spec_A_plus gamma amb)
     * sinc_fn (0.5 * (2 * pi / wavelength) * wy * spec_A_minus gamma amb)"

definition mask_value :: "real \<Rightarrow> real \<Rightarrow> real \<Rightarrow> real" where
  "mask_value s_on s_off p = (if p = 1 then s_on else if p = 0 then s_off else 0)"

definition centre_phase :: "nat \<Rightarrow> nat \<Rightarrow> nat \<Rightarrow> nat \<Rightarrow> complex" where
  "centre_phase ny nx iy ix =
     twiddle ny (int (ny div 2) * (int iy - int (ny div 2)))
   * twiddle nx (int (nx div 2) * (int ix - int (nx div 2)))"

section \<open>Properties\<close>

subsection \<open>The mirror frame\<close>

lemma inv_sqrt2_sq: "(1 / sqrt 2) * (1 / sqrt 2) = (1 / 2 :: real)"
  by simp

lemma sin_cos_one: "sin (g::real) * sin g + cos g * cos g = 1"
  using sin_cos_squared_add [of g] by (simp add: power2_eq_square)

lemma div_sqrt2: "(x::real) / sqrt 2 = x * (1 / sqrt 2)"
  by simp

lemma mirror_frame_alg:
  fixes c s r :: real
  assumes cs: "s * s + c * c = 1" and r: "r * r = 1 / 2"
  shows "c * r * ((c * r * v1 + r * v2 + s * r * v3) - (- (c * r) * v1 + r * v2 - s * r * v3))
           - s * (- s * v1 + c * v3) = v1"
    and "r * ((c * r * v1 + r * v2 + s * r * v3) + (- (c * r) * v1 + r * v2 - s * r * v3)) = v2"
    and "s * r * ((c * r * v1 + r * v2 + s * r * v3) - (- (c * r) * v1 + r * v2 - s * r * v3))
           + c * (- s * v1 + c * v3) = v3"
  using cs r by algebra+

lemma xyz2mirror_mirror2xyz:
  "mirror2xyz v1 v2 v3 gamma = (vx, vy, vz) \<Longrightarrow> xyz2mirror vx vy vz gamma = (v1, v2, v3)"
  using mirror_frame_alg [OF sin_cos_one [of gamma] inv_sqrt2_sq, of v1 v2 v3]
  unfolding mirror2xyz_def xyz2mirror_def Let_def div_sqrt2 [of "cos gamma"] div_sqrt2 [of "sin gamma"]
    div_sqrt2 [of "- cos gamma"]
  by (auto simp: mult.commute)

lemma mirror_frame_alg2:
  fixes c s r :: real
  assumes cs: "s * s + c * c = 1" and r: "r * r = 1 / 2"
  shows "c * r * (c * r * (x - y) - s * z) + r * (r * (x + y)) + s * r * (s * r * (x - y) + c * z) = x"
    and "- (c * r) * (c * r * (x - y) - s * z) + r * (r * (x + y)) - s * r * (s * r * (x - y) + c * z) = y"
    and "- s * (c * r * (x - y) - s * z) + c * (s * r * (x - y) + c * z) = z"
  using cs r by algebra+

lemma mirror2xyz_xyz2mirror:
  "xyz2mirror vx vy vz gamma = (v1, v2, v3) \<Longrightarrow> mirror2xyz v1 v2 v3 gamma = (vx, vy, vz)"
  using mirror_frame_alg2 [OF sin_cos_one [of gamma] inv_sqrt2_sq, of vx vy vz]
  unfolding mirror2xyz_def xyz2mirror_def Let_def div_sqrt2 [of "cos gamma"] div_sqrt2 [of "sin gamma"]
    div_sqrt2 [of "- cos gamma"]
  by (auto simp: mult.commute)

subsection \<open>The blaze solution is a reflection\<close>

text \<open>
  C10: \<^verbatim>\<open>solve_blaze_output\<close> is an involution: applied twice with the same mirror angle
  it returns the vector it was given, for every vector and every angle; and
  \<^verbatim>\<open>solve_blaze_input\<close> computes the same map as \<^verbatim>\<open>solve_blaze_output\<close>.
\<close>

theorem solve_blaze_output_involution:
  "solve_blaze_output (solve_blaze_output v gamma) gamma = v
   \<and> solve_blaze_input v gamma = solve_blaze_output v gamma"
proof -
  obtain x y z where v: "v = (x, y, z)" by (cases v)
  obtain a1 a2 a3 where m: "xyz2mirror x y z gamma = (a1, a2, a3)" by (cases "xyz2mirror x y z gamma")
  obtain bx b_y bz where b: "mirror2xyz a1 a2 (- a3) gamma = (bx, b_y, bz)"
    by (cases "mirror2xyz a1 a2 (- a3) gamma")
  have out: "solve_blaze_output (x, y, z) gamma = (bx, b_y, bz)"
    by (simp add: solve_blaze_output_def m b)
  have bk: "xyz2mirror bx b_y bz gamma = (a1, a2, - a3)"
    using b by (rule xyz2mirror_mirror2xyz)
  have "solve_blaze_output (bx, b_y, bz) gamma = mirror2xyz a1 a2 a3 gamma"
    by (simp add: solve_blaze_output_def bk)
  also have "\<dots> = (x, y, z)"
    using m by (rule mirror2xyz_xyz2mirror)
  finally have "solve_blaze_output (solve_blaze_output (x, y, z) gamma) gamma = (x, y, z)"
    unfolding out .
  then show ?thesis
    by (simp add: v solve_blaze_input_def)
qed

subsection \<open>The blaze envelope\<close>

lemma sq_inv_sqrt2: "(1 / sqrt 2)\<^sup>2 = (1 / 2 :: real)"
  by (simp add: power2_eq_square)

lemma blaze_condition_plus_default:
  "blaze_condition_fn gamma amb ''plus'' n_vec_default = Inr (spec_A_plus gamma amb)"
proof -
  obtain x y z where v: "amb = (x, y, z)" by (cases amb)
  have c1: "(1 / sqrt 2)\<^sup>2 * (1 - cos gamma) + cos gamma = 0.5 * (1 + cos gamma)"
    unfolding sq_inv_sqrt2 by argo
  have c2: "1 / sqrt 2 * (1 / sqrt 2) * (1 - cos gamma) + 0 * sin gamma = 0.5 * (1 - cos gamma)"
    unfolding inv_sqrt2_sq by argo
  have c3: "1 / sqrt 2 * 0 * (1 - cos gamma) - 1 / sqrt 2 * sin gamma = - (sin gamma / sqrt 2)"
    by simp
  show ?thesis
    unfolding blaze_condition_fn_def n_vec_default_def spec_A_plus_def v prod.case c1 c2 c3
    by simp
qed

lemma blaze_condition_minus_default:
  "blaze_condition_fn gamma amb ''minus'' n_vec_default = Inr (spec_A_minus gamma amb)"
proof -
  obtain x y z where v: "amb = (x, y, z)" by (cases amb)
  have c1: "1 / sqrt 2 * (1 / sqrt 2) * (1 - cos gamma) - 0 * sin gamma = 0.5 * (1 - cos gamma)"
    unfolding inv_sqrt2_sq by argo
  have c2: "(1 / sqrt 2)\<^sup>2 * (1 - cos gamma) + cos gamma = 0.5 * (1 + cos gamma)"
    unfolding sq_inv_sqrt2 by argo
  have c3: "1 / sqrt 2 * 0 * (1 - cos gamma) + 1 / sqrt 2 * sin gamma = sin gamma / sqrt 2"
    by simp
  show ?thesis
    unfolding blaze_condition_fn_def n_vec_default_def spec_A_minus_def v prod.case c1 c2 c3
    by simp
qed

lemmas blaze_condition_default = blaze_condition_plus_default blaze_condition_minus_default

lemma blaze_envelope_default:
  "blaze_envelope wavelength gamma wx wy amb n_vec_default =
     Inr (sinc_fn (0.5 * (2 * pi / wavelength) * wx * spec_A_plus gamma amb)
          * sinc_fn (0.5 * (2 * pi / wavelength) * wy * spec_A_minus gamma amb))"
  unfolding blaze_envelope_def Let_def blaze_condition_default by (simp only: sum.case)

lemma blaze_zero_alg:
  fixes c s r :: real
  assumes cs: "s * s + c * c = 1" and r: "r * r = 1 / 2"
  shows "0.5 * (1 + c) * (x - (c * r * (c * r * (x - y) - s * z) + r * (r * (x + y)) + s * r * (- (s * r * (x - y) + c * z))))
       + 0.5 * (1 - c) * (y - (- (c * r) * (c * r * (x - y) - s * z) + r * (r * (x + y)) - s * r * (- (s * r * (x - y) + c * z))))
       - s * r * (z - (- s * (c * r * (x - y) - s * z) + c * (- (s * r * (x - y) + c * z)))) = 0"
    and "0.5 * (1 - c) * (x - (c * r * (c * r * (x - y) - s * z) + r * (r * (x + y)) + s * r * (- (s * r * (x - y) + c * z))))
       + 0.5 * (1 + c) * (y - (- (c * r) * (c * r * (x - y) - s * z) + r * (r * (x + y)) - s * r * (- (s * r * (x - y) + c * z))))
       + s * r * (z - (- s * (c * r * (x - y) - s * z) + c * (- (s * r * (x - y) + c * z)))) = 0"
  using cs r by algebra+

lemma blaze_condition_at_solution:
  "spec_A_plus gamma (vsub a (solve_blaze_output a gamma)) = 0"
  "spec_A_minus gamma (vsub a (solve_blaze_output a gamma)) = 0"
proof -
  obtain x y z where v: "a = (x, y, z)" by (cases a)
  note alg = blaze_zero_alg [OF sin_cos_one [of gamma] inv_sqrt2_sq, of x y z]
  show "spec_A_plus gamma (vsub a (solve_blaze_output a gamma)) = 0"
    using alg(1)
    unfolding v spec_A_plus_def vsub_def solve_blaze_output_def mirror2xyz_def xyz2mirror_def Let_def
      prod.case div_sqrt2 [of "cos gamma"] div_sqrt2 [of "sin gamma"] div_sqrt2 [of "- cos gamma"]
    by (simp add: mult.commute)
  show "spec_A_minus gamma (vsub a (solve_blaze_output a gamma)) = 0"
    using alg(2)
    unfolding v spec_A_minus_def vsub_def solve_blaze_output_def mirror2xyz_def xyz2mirror_def Let_def
      prod.case div_sqrt2 [of "cos gamma"] div_sqrt2 [of "sin gamma"] div_sqrt2 [of "- cos gamma"]
    by (simp add: mult.commute)
qed

text \<open>
  C3: for every unit input vector \<open>a\<close>, every mirror angle, every wavelength greater than 0
  and all mirror widths, \<^verbatim>\<open>blaze_envelope\<close> evaluated at the difference of \<open>a\<close> and
  \<^verbatim>\<open>solve_blaze_output(a, gamma)\<close> is exactly 1.
\<close>

theorem blaze_envelope_peak:
  assumes "0 < wavelength" and "norm2 a = 1"
  shows "blaze_envelope wavelength gamma wx wy (vsub a (solve_blaze_output a gamma)) n_vec_default = Inr 1"
  unfolding blaze_envelope_default blaze_condition_at_solution by (simp add: sinc_fn_def)


theorem blaze_envelope_peak_witness:
  "(0::real) < 1 \<and> norm2 (0, 0, - 1) = 1
   \<and> blaze_envelope 1 (1 / 5) (9 / 10) (9 / 10)
         (vsub (0, 0, - 1) (solve_blaze_output (0, 0, - 1) (1 / 5))) n_vec_default = Inr 1"
  using blaze_envelope_peak [of 1 "(0, 0, - 1)" "1 / 5" "9 / 10" "9 / 10"]
  by (simp add: norm2_def)

text \<open>
  C2, as the code has it: for every wavelength greater than 0, mirror angle, mirror
  widths and difference vector, \<^verbatim>\<open>blaze_envelope\<close> with the default swivel axis returns
  the product of the two sinc factors \<open>sinc (0.5 k wx A\<^sub>+) * sinc (0.5 k wy A\<^sub>-)\<close> with
  \<open>k = 2 pi / wavelength\<close>, without the prefactor \<open>wx * wy\<close>; its callers multiply by
  \<open>wx * wy\<close>.
\<close>

theorem blaze_envelope_value:
  assumes "0 < wavelength"
  shows "blaze_envelope wavelength gamma wx wy amb n_vec_default =
           Inr (sinc_fn (0.5 * (2 * pi / wavelength) * wx * spec_A_plus gamma amb)
                * sinc_fn (0.5 * (2 * pi / wavelength) * wy * spec_A_minus gamma amb))
         \<and> spec_blaze_envelope wavelength gamma wx wy amb =
           wx * wy * (sinc_fn (0.5 * (2 * pi / wavelength) * wx * spec_A_plus gamma amb)
                * sinc_fn (0.5 * (2 * pi / wavelength) * wy * spec_A_minus gamma amb))"
  unfolding blaze_envelope_default spec_blaze_envelope_def Let_def by simp

theorem blaze_envelope_value_witness:
  "(0::real) < 1
   \<and> blaze_envelope 1 0 2 2 (0, 0, 0) n_vec_default =
           Inr (sinc_fn (0.5 * (2 * pi / 1) * 2 * spec_A_plus 0 (0, 0, 0))
                * sinc_fn (0.5 * (2 * pi / 1) * 2 * spec_A_minus 0 (0, 0, 0)))"
  using blaze_envelope_value [of 1 0 2 2 "(0, 0, 0)"] by simp

text \<open>
  C2, as the specification states it, fails: with both mirror widths 2 and a zero
  difference vector the code returns 1, and the stated value with the prefactor is 4.
\<close>

theorem blaze_envelope_prefactor_counterexample:
  "blaze_envelope 1 0 2 2 (0, 0, 0) n_vec_default \<noteq> Inr (spec_blaze_envelope 1 0 2 2 (0, 0, 0))"
  unfolding blaze_envelope_default spec_blaze_envelope_def Let_def
  by (simp add: spec_A_plus_def spec_A_minus_def sinc_fn_def)

subsection \<open>Angles and unit vectors\<close>

lemma unit_norm_pos: "0 < sqrt ((tan tx)\<^sup>2 + (tan ty)\<^sup>2 + 1)" for tx ty :: real
proof -
  have "0 < (tan tx)\<^sup>2 + (tan ty)\<^sup>2 + 1"
    by (rule add_nonneg_pos) simp_all
  then show ?thesis by simp
qed

lemma uvector2txty_scaled:
  assumes n: "0 < n" and z: "z = 1 \<or> z = - 1"
  shows "uvector2txty (p / n) (q / n) (z / n) = (arctan p, arctan q)"
proof -
  have "\<bar>1 / (z / n)\<bar> = n"
    using n z by auto
  then show ?thesis
    using n by (simp add: uvector2txty_def Let_def)
qed

text \<open>
  C8: for every pair of angles \<open>tx\<close>, \<open>ty\<close> strictly between \<open>- pi / 2\<close> and \<open>pi / 2\<close>,
  \<^verbatim>\<open>uvector2txty\<close> applied to the three components of \<^verbatim>\<open>get_unit_vector(tx, ty, "in")\<close>
  returns \<open>(tx, ty)\<close>, and the same holds for the mode \<^verbatim>\<open>"out"\<close>.
\<close>

theorem unit_vector_round_trip:
  assumes "- (pi / 2) < tx" "tx < pi / 2" "- (pi / 2) < ty" "ty < pi / 2"
  shows "txty_of_unit_vector tx ty ''in'' = Inr (tx, ty)
       \<and> txty_of_unit_vector tx ty ''out'' = Inr (tx, ty)"
proof -
  let ?n = "sqrt ((tan tx)\<^sup>2 + (tan ty)\<^sup>2 + 1)"
  have bx: "arctan (tan tx) = tx" and b_y: "arctan (tan ty) = ty"
    using assms by (simp_all add: arctan_tan)
  have i: "uvector2txty (tan tx / ?n) (tan ty / ?n) (- 1 / ?n) = (tx, ty)"
    using uvector2txty_scaled [where n = "?n" and z = "- 1" and p = "tan tx" and q = "tan ty"]
      unit_norm_pos [of tx ty] bx b_y by simp
  have out: "uvector2txty (tan tx / ?n) (tan ty / ?n) (1 / ?n) = (tx, ty)"
    using uvector2txty_scaled [where n = "?n" and z = 1 and p = "tan tx" and q = "tan ty"]
      unit_norm_pos [of tx ty] bx b_y by simp
  show ?thesis
    unfolding txty_of_unit_vector_def get_unit_vector_def Let_def using i out by simp
qed

theorem unit_vector_round_trip_witness:
  "- (pi / 2) < (0::real) \<and> (0::real) < pi / 2
   \<and> txty_of_unit_vector 0 0 ''in'' = Inr (0, 0)
   \<and> txty_of_unit_vector 0 0 ''out'' = Inr (0, 0)"
  using unit_vector_round_trip [of 0 0] by simp

subsection \<open>Grating equation\<close>

lemma np_arith [simp]:
  "np_add (Some x) (Some y) = Some (x + y)"
  "np_sub (Some x) (Some y) = Some (x - y)"
  "np_mul (Some x) (Some y) = Some (x * y)"
  "np_neg (Some x) = Some (- x)"
  "np_add None b = None" "np_add a None = None"
  "np_sub None b = None" "np_sub a None = None"
  "np_mul None b = None" "np_mul a None = None"
  "np_neg None = None"
  by (simp_all add: np_add_def np_sub_def np_mul_def np_neg_def np_lift2_def split: option.splits)

lemma np_sqrt_simps [simp]:
  "np_sqrt None = None"
  "x < 0 \<Longrightarrow> np_sqrt (Some x) = None"
  "0 \<le> x \<Longrightarrow> np_sqrt (Some x) = Some (sqrt x)"
  by (simp_all add: np_sqrt_def)

lemma np_isnan_simps [simp]: "np_isnan None" "\<not> np_isnan (Some x)" "NaN = None"
  by (simp_all add: np_isnan_def NaN_def)

lemma solve_diffraction_output_real:
  "solve_diffraction_output (Some ux, Some uy, uz) dx dy wavelength (nx, ny) =
    (let b_x = ux - wavelength / dx * real_of_int nx;
         b_y = uy - wavelength / dy * real_of_int ny
     in if 1 - b_x * b_x - b_y * b_y < 0 then (None, None, None)
        else (Some b_x, Some b_y, Some (sqrt (1 - b_x * b_x - b_y * b_y))))"
  by (simp add: solve_diffraction_output_def Let_def)

lemma solve_diffraction_input_real:
  "solve_diffraction_input (Some ux, Some uy, uz) dx dy wavelength (nx, ny) =
    (let a_x = ux + wavelength / dx * real_of_int nx;
         a_y = uy + wavelength / dy * real_of_int ny
     in (Some a_x, Some a_y,
         if 1 - a_x * a_x - a_y * a_y < 0 then None else Some (- sqrt (1 - a_x * a_x - a_y * a_y))))"
  by (simp add: solve_diffraction_input_def Let_def)

lemma solve_diffraction_input_nan:
  "solve_diffraction_input (None, None, uz) dx dy wavelength order = (None, None, None)"
  by (simp add: solve_diffraction_input_def Let_def)

text \<open>
  What the two functions return: when the transverse components \<open>x\<close>, \<open>y\<close> that the grating
  equation yields have \<open>1 - x\<^sup>2 - y\<^sup>2 < 0\<close>, \<^verbatim>\<open>solve_diffraction_output\<close> returns three
  NaN, and \<^verbatim>\<open>solve_diffraction_input\<close> returns NaN in the z component only: its x and y
  components stay the values of the grating equation. In the feasible case both return
  the values of the grating equation with the real square root.
\<close>

lemma diffraction_results:
  assumes "0 < dx" "0 < dy"
  shows "solve_diffraction_output (fvec (ux, uy, uz)) dx dy wavelength (nx, ny) =
          (let b_x = ux - wavelength / dx * real_of_int nx;
               b_y = uy - wavelength / dy * real_of_int ny
           in if 1 - b_x\<^sup>2 - b_y\<^sup>2 < 0 then (NaN, NaN, NaN)
              else fvec (b_x, b_y, sqrt (1 - b_x\<^sup>2 - b_y\<^sup>2)))
       \<and> solve_diffraction_input (fvec (ux, uy, uz)) dx dy wavelength (nx, ny) =
          (let a_x = ux + wavelength / dx * real_of_int nx;
               a_y = uy + wavelength / dy * real_of_int ny
           in if 1 - a_x\<^sup>2 - a_y\<^sup>2 < 0 then (Some a_x, Some a_y, NaN)
              else fvec (a_x, a_y, - sqrt (1 - a_x\<^sup>2 - a_y\<^sup>2)))"
  unfolding fvec_def prod.case solve_diffraction_output_real solve_diffraction_input_real
  by (simp add: Let_def power2_eq_square)

lemma diffraction_results_example:
  "(0::real) < 1
   \<and> solve_diffraction_output (fvec (0, 0, - 1)) 1 1 1 (2, 0) = (NaN, NaN, NaN)
   \<and> solve_diffraction_input (fvec (0, 0, 1)) 1 1 1 (2, 0) = (Some 2, Some 0, NaN)
   \<and> solve_diffraction_output (fvec (0, 0, - 1)) 1 1 1 (1, 0) = fvec (- 1, 0, 0)"
  using diffraction_results [of 1 1 0 0 "- 1" 1 2 0]
        diffraction_results [of 1 1 0 0 1 1 2 0]
        diffraction_results [of 1 1 0 0 "- 1" 1 1 0]
  by (simp add: Let_def)

text \<open>
  C5: the claim is that for an evanescent order both \<^verbatim>\<open>solve_diffraction_output\<close> and
  \<^verbatim>\<open>solve_diffraction_input\<close> return a vector flagged with NaN components.
  \<^verbatim>\<open>solve_diffraction_output\<close> does: from \<open>(0, 0, - 1)\<close> with wavelength 1, pitches 1 and
  order \<open>(2, 0)\<close> it returns three NaN. \<^verbatim>\<open>solve_diffraction_input\<close> has no such
  assignments: from \<open>(0, 0, 1)\<close> with the same parameters it returns \<open>(2, 0, NaN)\<close>, whose
  x and y components are numbers, the first of them outside \<open>[- 1, 1]\<close>.
\<close>

theorem solve_diffraction_input_not_flagged:
  "solve_diffraction_output (fvec (0, 0, - 1)) 1 1 1 (2, 0) = (NaN, NaN, NaN)
   \<and> solve_diffraction_input (fvec (0, 0, 1)) 1 1 1 (2, 0) = (Some 2, Some 0, NaN)
   \<and> \<not> np_isnan (fst (solve_diffraction_input (fvec (0, 0, 1)) 1 1 1 (2, 0)))
   \<and> \<not> np_isnan (fst (snd (solve_diffraction_input (fvec (0, 0, 1)) 1 1 1 (2, 0))))"
  unfolding fvec_def prod.case solve_diffraction_output_real solve_diffraction_input_real
  by (simp add: Let_def)

text \<open>
  C4, as the code has it: for every unit input vector with non-positive z component (an
  incoming direction), every wavelength, positive pitches and every order \<open>(nx, ny)\<close>,
  \<^verbatim>\<open>solve_diffraction_output\<close> followed by \<^verbatim>\<open>solve_diffraction_input\<close> with the same
  order \<open>(nx, ny)\<close> returns the input vector, or the vector of three NaN when the forward
  step was infeasible.
\<close>

theorem grating_round_trip:
  assumes "norm2 (a_x, a_y, a_z) = 1" "a_z \<le> 0" "0 < dx" "0 < dy"
  shows "solve_diffraction_input
           (solve_diffraction_output (fvec (a_x, a_y, a_z)) dx dy wavelength (nx, ny))
           dx dy wavelength (nx, ny) =
         (if np_isnan (snd (snd (solve_diffraction_output (fvec (a_x, a_y, a_z)) dx dy wavelength (nx, ny))))
          then (NaN, NaN, NaN) else fvec (a_x, a_y, a_z))"
proof -
  let ?bx = "a_x - wavelength / dx * real_of_int nx"
  let ?by = "a_y - wavelength / dy * real_of_int ny"
  have z: "- sqrt (1 - a_x * a_x - a_y * a_y) = a_z"
  proof -
    have "1 - a_x * a_x - a_y * a_y = a_z\<^sup>2"
      using assms(1) by (simp add: norm2_def power2_eq_square)
    then show ?thesis using assms(2) by simp
  qed
  have nn: "\<not> 1 - a_x * a_x - a_y * a_y < 0"
  proof -
    have "1 - a_x * a_x - a_y * a_y = a_z\<^sup>2"
      using assms(1) by (simp add: norm2_def power2_eq_square)
    then show ?thesis by simp
  qed
  show ?thesis
  proof (cases "1 - ?bx * ?bx - ?by * ?by < 0")
    case True
    then show ?thesis
      unfolding fvec_def prod.case solve_diffraction_output_real Let_def
      by (simp add: solve_diffraction_input_nan)
  next
    case False
    then show ?thesis
      unfolding fvec_def prod.case solve_diffraction_output_real Let_def
      using z nn by (simp add: solve_diffraction_input_real Let_def)
  qed
qed

theorem grating_round_trip_witness:
  "norm2 (0, 0, - 1) = 1 \<and> (0::real) < 2
   \<and> solve_diffraction_input (solve_diffraction_output (fvec (0, 0, - 1)) 2 2 1 (1, 0)) 2 2 1 (1, 0)
       = fvec (0, 0, - 1)"
  using grating_round_trip [of 0 0 "- 1" 2 2 1 1 0]
  by (simp add: norm2_def fvec_def solve_diffraction_output_real Let_def)

text \<open>
  C4, as the specification states it, fails: with the negated order in the second step
  the shift of the grating equation is applied twice. From \<open>(0, 0, - 1)\<close> with
  wavelength 1, pitches 2 and order \<open>(1, 0)\<close> the forward step is feasible, and the
  second step with order \<open>(- 1, 0)\<close> does not return \<open>(0, 0, - 1)\<close>.
\<close>

theorem grating_negated_order_counterexample:
  "\<not> np_isnan (snd (snd (solve_diffraction_output (fvec (0, 0, - 1)) 2 2 1 (1, 0))))
   \<and> solve_diffraction_input (solve_diffraction_output (fvec (0, 0, - 1)) 2 2 1 (1, 0)) 2 2 1 (- 1, 0)
       \<noteq> fvec (0, 0, - 1)"
  unfolding fvec_def prod.case solve_diffraction_output_real Let_def
  by (simp add: solve_diffraction_input_real Let_def)

subsection \<open>Limits of the diffraction order\<close>

text \<open>
  C9, as the code has it: for every wavelength greater than 0 and every pitch,
  \<^verbatim>\<open>get_diffraction_order_limits\<close> called with \<open>gamma\<close> exactly 0 raises no error and
  returns \<open>[nmin, nmax] = [0, - 1]\<close>, because the branch \<^verbatim>\<open>gamma <= 0\<close> matches; the
  \<^verbatim>\<open>ValueError\<close> of the last branch is raised exactly when \<open>gamma\<close> is NaN.
\<close>

theorem order_limits_gamma_zero:
  assumes "0 < wavelength"
  shows "get_diffraction_order_limits wavelength d (Some 0) = Inr (0, - 1)
       \<and> (get_diffraction_order_limits wavelength d gamma = Inl ValueError) = np_isnan gamma"
  by (cases gamma) (simp_all add: get_diffraction_order_limits_def Let_def)

theorem order_limits_gamma_zero_witness:
  "(0::real) < 1 \<and> get_diffraction_order_limits 1 1 (Some 0) = Inr (0, - 1)
   \<and> get_diffraction_order_limits 1 1 NaN = Inl ValueError"
  using order_limits_gamma_zero [of 1 1 NaN] by simp

text \<open>
  C9, as the specification states it, fails: with wavelength 1, pitch 1 and \<open>gamma = 0\<close>
  the result is not an error.
\<close>

theorem order_limits_gamma_zero_counterexample:
  "\<not> isl (get_diffraction_order_limits 1 1 (Some 0))"
  by (simp add: get_diffraction_order_limits_def Let_def)

subsection \<open>Blaze and grating conditions together\<close>

lemma mirror2xyz_norm_alg:
  fixes c s r :: real
  assumes cs: "s * s + c * c = 1" and r: "r * r = 1 / 2"
  shows "(c * r * v1 + r * v2 + s * r * v3) * (c * r * v1 + r * v2 + s * r * v3)
       + (- (c * r) * v1 + r * v2 - s * r * v3) * (- (c * r) * v1 + r * v2 - s * r * v3)
       + (- s * v1 + c * v3) * (- s * v1 + c * v3) = v1 * v1 + v2 * v2 + v3 * v3"
  using cs r by algebra

lemma mirror2xyz_norm2: "norm2 (mirror2xyz v1 v2 v3 gamma) = v1\<^sup>2 + v2\<^sup>2 + v3\<^sup>2"
  using mirror2xyz_norm_alg [OF sin_cos_one [of gamma] inv_sqrt2_sq, of v1 v2 v3]
  unfolding mirror2xyz_def norm2_def Let_def prod.case power2_eq_square
    div_sqrt2 [of "cos gamma"] div_sqrt2 [of "sin gamma"] div_sqrt2 [of "- cos gamma"]
  by (simp add: mult.commute)

lemma a1_signed_real:
  assumes "0 \<le> 1 - a2\<^sup>2 - a3\<^sup>2"
  shows "a1_signed a3 a2 positive =
           Some (if positive then sqrt (1 - a2\<^sup>2 - a3\<^sup>2) else - sqrt (1 - a2\<^sup>2 - a3\<^sup>2))"
  using assms by (simp add: a1_signed_def a1_positive_fn_def Let_def)

lemma combined_fns_mirror:
  assumes "a1_signed a3 a2 positive = Some a1"
  shows "(ax_fn gamma a3 a2 positive, ay_fn gamma a3 a2 positive, az_fn gamma a3 a2 positive)
           = fvec (mirror2xyz a1 a2 a3 gamma)"
    and "(bx_fn gamma a3 a2 positive, by_fn gamma a3 a2 positive, bz_fn gamma a3 a2 positive)
           = fvec (mirror2xyz a1 a2 (- a3) gamma)"
  by (simp_all add: assms ax_fn_def ay_fn_def az_fn_def bx_fn_def by_fn_def bz_fn_def
      fvec_def mirror2xyz_def Let_def)

lemma within_bounds_nonneg:
  fixes a2 a3 :: real
  assumes "- sqrt (1 - a3\<^sup>2) \<le> a2" "a2 \<le> sqrt (1 - a3\<^sup>2)" "0 \<le> 1 - a3\<^sup>2"
  shows "0 \<le> 1 - a2\<^sup>2 - a3\<^sup>2"
proof -
  have "\<bar>a2\<bar> \<le> sqrt (1 - a3\<^sup>2)"
    using assms(1,2) by linarith
  then have "a2\<^sup>2 \<le> (sqrt (1 - a3\<^sup>2))\<^sup>2"
    by (metis abs_le_square_iff abs_of_nonneg real_sqrt_ge_zero assms(3))
  then show ?thesis using assms(3) by simp
qed

lemma combined_a3_grating:
  assumes "0 < d" "sin gamma \<noteq> 0"
  shows "2 * (sin gamma / sqrt 2 * combined_a3 d gamma wavelength n) = wavelength * real_of_int n / d"
proof -
  have "2 / (sqrt 2 * sqrt 2) = (1::real)" by simp
  then show ?thesis
    using assms by (simp add: combined_a3_def field_simps)
qed

lemma mirror2xyz_grating:
  "mirror2xyz a1 a2 (- a3) gamma = (bx, b_y, bz) \<Longrightarrow> mirror2xyz a1 a2 a3 gamma = (ax, a_y, az)
    \<Longrightarrow> bx = ax - 2 * (sin gamma / sqrt 2 * a3) \<and> b_y = a_y + 2 * (sin gamma / sqrt 2 * a3)"
  by (auto simp: mirror2xyz_def Let_def)

text \<open>
  C7: for every pitch \<open>d > 0\<close>, angle with \<open>sin gamma \<noteq> 0\<close>, wavelength greater than 0
  and integer order \<open>n\<close> with \<open>\<bar>a3\<bar> \<le> 1\<close> for \<open>a3 = wavelength * n / (sqrt 2 * d * sin gamma)\<close>,
  the bounds that \<^verbatim>\<open>solve_combined_condition\<close> returns are
  \<open>[- sqrt (1 - a3\<^sup>2), sqrt (1 - a3\<^sup>2)]\<close>, and for every \<open>a2\<close> within them and both branches
  the vectors \<open>a = a_fn(a2, positive)\<close> and \<open>b = b_fn(a2, positive)\<close> that it returns are
  real, have unit Euclidean norm, satisfy the grating equation for the order \<open>(n, - n)\<close>,
  that is \<open>bx = ax - wavelength * n / d\<close> and \<open>by = ay + wavelength * n / d\<close>, and satisfy
  the blaze condition \<open>b = solve_blaze_output(a, gamma)\<close>.
\<close>

theorem combined_condition_solution:
  assumes d: "0 < d" and g: "sin gamma \<noteq> 0" and w: "0 < wavelength"
    and a3_def: "a3 = wavelength * real_of_int n / (sqrt 2 * d * sin gamma)"
    and a3: "\<bar>a3\<bar> \<le> 1"
    and res: "solve_combined_condition d gamma wavelength n = (a_fn, b_fn, a2_bounds)"
    and lo: "- sqrt (1 - a3\<^sup>2) \<le> a2" and hi: "a2 \<le> sqrt (1 - a3\<^sup>2)"
  shows "a2_bounds = (Some (- sqrt (1 - a3\<^sup>2)), Some (sqrt (1 - a3\<^sup>2)))
       \<and> (\<exists>a b. a_fn a2 positive = fvec a \<and> b_fn a2 positive = fvec b
           \<and> norm2 a = 1 \<and> norm2 b = 1
           \<and> fst b = fst a - wavelength * real_of_int n / d
           \<and> fst (snd b) = fst (snd a) + wavelength * real_of_int n / d
           \<and> solve_blaze_output a gamma = b)"
proof -
  have a3_eq: "combined_a3 d gamma wavelength n = a3"
    by (simp add: a3_def combined_a3_def)
  have "a3\<^sup>2 \<le> 1"
    using a3 by (simp add: abs_square_le_1)
  then have nn: "0 \<le> 1 - a3\<^sup>2" by simp
  have afn: "a_fn = (\<lambda>a2 positive. (ax_fn gamma a3 a2 positive, ay_fn gamma a3 a2 positive, az_fn gamma a3 a2 positive))"
    and bfn: "b_fn = (\<lambda>a2 positive. (bx_fn gamma a3 a2 positive, by_fn gamma a3 a2 positive, bz_fn gamma a3 a2 positive))"
    and bnd: "a2_bounds = (np_neg (np_sqrt (Some (1 - a3\<^sup>2))), np_sqrt (Some (1 - a3\<^sup>2)))"
    using res unfolding solve_combined_condition_def Let_def a3_eq by auto
  have bounds: "a2_bounds = (Some (- sqrt (1 - a3\<^sup>2)), Some (sqrt (1 - a3\<^sup>2)))"
    unfolding bnd using nn by simp
  have nn2: "0 \<le> 1 - a2\<^sup>2 - a3\<^sup>2"
    using within_bounds_nonneg [of a3 a2] lo hi nn by simp
  define a1 where "a1 = (if positive then sqrt (1 - a2\<^sup>2 - a3\<^sup>2) else - sqrt (1 - a2\<^sup>2 - a3\<^sup>2))"
  have a1: "a1_signed a3 a2 positive = Some a1"
    unfolding a1_def by (rule a1_signed_real [OF nn2])
  have a1sq: "a1\<^sup>2 = 1 - a2\<^sup>2 - a3\<^sup>2"
    using nn2 by (simp add: a1_def)
  obtain ax a_y az where a: "mirror2xyz a1 a2 a3 gamma = (ax, a_y, az)"
    by (cases "mirror2xyz a1 a2 a3 gamma")
  obtain bx b_y bz where b: "mirror2xyz a1 a2 (- a3) gamma = (bx, b_y, bz)"
    by (cases "mirror2xyz a1 a2 (- a3) gamma")
  have A: "a_fn a2 positive = fvec (ax, a_y, az)"
    unfolding afn using combined_fns_mirror(1) [OF a1, of gamma] a by simp
  have B: "b_fn a2 positive = fvec (bx, b_y, bz)"
    unfolding bfn using combined_fns_mirror(2) [OF a1, of gamma] b by simp
  have na: "norm2 (ax, a_y, az) = 1"
    using mirror2xyz_norm2 [of a1 a2 a3 gamma] a1sq unfolding a by simp
  have nb: "norm2 (bx, b_y, bz) = 1"
    using mirror2xyz_norm2 [of a1 a2 "- a3" gamma] a1sq unfolding b by simp
  have gr: "bx = ax - wavelength * real_of_int n / d \<and> b_y = a_y + wavelength * real_of_int n / d"
    using mirror2xyz_grating [OF b a] combined_a3_grating [OF d g, of wavelength n]
    unfolding a3_eq by simp
  have bl: "solve_blaze_output (ax, a_y, az) gamma = (bx, b_y, bz)"
    using xyz2mirror_mirror2xyz [OF a] b by (simp add: solve_blaze_output_def)
  have "\<exists>a b. a_fn a2 positive = fvec a \<and> b_fn a2 positive = fvec b
           \<and> norm2 a = 1 \<and> norm2 b = 1
           \<and> fst b = fst a - wavelength * real_of_int n / d
           \<and> fst (snd b) = fst (snd a) + wavelength * real_of_int n / d
           \<and> solve_blaze_output a gamma = b"
    using A B na nb gr bl by (intro exI [of _ "(ax, a_y, az)"] exI [of _ "(bx, b_y, bz)"]) simp
  then show ?thesis
    using bounds by (rule conjI [rotated])
qed

theorem combined_condition_solution_witness:
  "(0::real) < 1 \<and> sin (pi / 2 :: real) \<noteq> 0 \<and> \<bar>1 / sqrt 2 :: real\<bar> \<le> 1
   \<and> - sqrt (1 - (1 / sqrt 2)\<^sup>2) \<le> (0::real) \<and> (0::real) \<le> sqrt (1 - (1 / sqrt 2)\<^sup>2)
   \<and> snd (snd (solve_combined_condition 1 (pi / 2) 1 1))
        = (Some (- sqrt (1 - (1 / sqrt 2)\<^sup>2)), Some (sqrt (1 - (1 / sqrt 2)\<^sup>2)))
   \<and> (\<exists>a b. fst (solve_combined_condition 1 (pi / 2) 1 1) 0 True = fvec a
       \<and> fst (snd (solve_combined_condition 1 (pi / 2) 1 1)) 0 True = fvec b
       \<and> norm2 a = 1 \<and> norm2 b = 1
       \<and> fst b = fst a - 1 * real_of_int 1 / 1
       \<and> fst (snd b) = fst (snd a) + 1 * real_of_int 1 / 1
       \<and> solve_blaze_output a (pi / 2) = b)"
proof -
  have sq: "(1 / sqrt 2)\<^sup>2 = (1 / 2 :: real)" by (simp add: power2_eq_square)
  have h1: "(0::real) < 1" by simp
  have h2: "sin (pi / 2 :: real) \<noteq> 0" by simp
  have h3: "(1 / sqrt 2 :: real) = 1 * real_of_int 1 / (sqrt 2 * 1 * sin (pi / 2))" by simp
  have h4: "\<bar>1 / sqrt 2 :: real\<bar> \<le> 1" by simp
  have h5: "- sqrt (1 - (1 / sqrt 2)\<^sup>2) \<le> (0::real)" unfolding sq by simp
  have h6: "(0::real) \<le> sqrt (1 - (1 / sqrt 2)\<^sup>2)" unfolding sq by simp
  have res: "solve_combined_condition 1 (pi / 2) 1 1 =
      (fst (solve_combined_condition 1 (pi / 2) 1 1), fst (snd (solve_combined_condition 1 (pi / 2) 1 1)),
       snd (snd (solve_combined_condition 1 (pi / 2) 1 1)))"
    by simp
  show ?thesis
    using combined_condition_solution [OF h1 h2 h1 h3 h4 res h5 h6, of True] h1 h2 h4 h5 h6
    by blast
qed

subsection \<open>Preconditions of the brute-force simulation\<close>

lemma calc_output_angle_total:
  "\<exists>v. calc_output_angle pattern wavelength gamma_on gamma_off dx dy wx wy uvec_in zshifts bvec = Inr v"
  unfolding calc_output_angle_def blaze_envelope_default Let_def
  by (simp split: prod.splits option.splits)

lemma collect_total:
  assumes "\<And>x. x \<in> set xs \<Longrightarrow> \<exists>v. f x = Inr v"
  shows "\<exists>vs. collect (map f xs) = Inr vs \<and> length vs = length xs
            \<and> (\<forall>i<length xs. f (xs ! i) = Inr (vs ! i))"
  using assms
proof (induction xs)
  case Nil
  then show ?case by simp
next
  case (Cons x xs)
  obtain v where v: "f x = Inr v"
    using Cons.prems [of x] by auto
  obtain vs where vs: "collect (map f xs) = Inr vs" "length vs = length xs"
      "\<forall>i<length xs. f (xs ! i) = Inr (vs ! i)"
    using Cons.IH Cons.prems by auto
  have "\<forall>i<length (x # xs). f ((x # xs) ! i) = Inr ((v # vs) ! i)"
    using v vs(3) by (auto simp: nth_Cons split: nat.splits)
  then show ?case
    using v vs(1,2) by simp
qed

text \<open>
  The errors of \<^verbatim>\<open>simulate_dmd\<close> on arrays of the expected shapes (a two-dimensional
  pattern, output directions as rows of three components): for a wavelength greater
  than 0 it raises exactly when the pattern is not binary, a width exceeds its pitch, or
  there is no output direction.
\<close>

lemma simulate_dmd_raises:
  assumes "0 < wavelength"
  shows "(\<exists>e. simulate_dmd pattern wavelength gamma_on gamma_off dx dy wx wy uvec_in uvecs_out zshifts = Inl e)
    = (\<not> list_all (list_all (\<lambda>p. p = 0 \<or> p = 1)) pattern \<or> wx > dx \<or> wy > dy \<or> uvecs_out = [])"
proof -
  define zs where "zs = (case zshifts of None \<Rightarrow> np_zeros (length pattern) (ncols pattern) | Some z \<Rightarrow> z)"
  define f where "f = calc_output_angle pattern wavelength gamma_on gamma_off dx dy wx wy uvec_in zs"
  have "\<And>x. x \<in> set uvecs_out \<Longrightarrow> \<exists>v. f x = Inr v"
    unfolding f_def by (rule calc_output_angle_total)
  from collect_total [of uvecs_out f, OF this]
  obtain vs where vs: "collect (map f uvecs_out) = Inr vs" "length vs = length uvecs_out"
    by blast
  show ?thesis
    unfolding simulate_dmd_def Let_def zs_def [symmetric] f_def [symmetric] vs(1)
    using vs(2) by auto
qed

text \<open>
  C6: the claim is that \<^verbatim>\<open>simulate_dmd\<close> raises exactly when the pattern is not binary or
  a mirror width exceeds its pitch, and raises nothing otherwise. The code raises for
  these inputs, and it also raises \<^verbatim>\<open>ValueError\<close> for a binary pattern with widths within
  the pitches when \<^verbatim>\<open>uvecs_out\<close> has no row: here for a single ON mirror, pitches 1 and
  widths 0.9.
\<close>

theorem simulate_dmd_no_directions:
  "list_all (list_all (\<lambda>p. p = 0 \<or> p = 1)) [[1::real]] \<and> \<not> ((1::real) < 9 / 10)
   \<and> simulate_dmd [[1]] (1 / 2) (1 / 5) (- 1 / 5) 1 1 (9 / 10) (9 / 10) (0, 0, - 1) [] None
        = Inl ValueError"
  by (simp add: simulate_dmd_def)

subsection \<open>Roots of unity\<close>

lemma twiddle_add: "twiddle n (a + b) = twiddle n a * twiddle n b"
  by (simp add: twiddle_def cis_mult add_divide_distrib distrib_left)

lemma twiddle_zero: "twiddle n 0 = 1"
  by (simp add: twiddle_def)

lemma twiddle_multiple:
  assumes "0 < n"
  shows "twiddle n (int n * t) = 1"
proof -
  have "2 * pi * real_of_int (int n * t) / real n = 2 * pi * real_of_int t"
    using assms by simp
  then show ?thesis
    unfolding twiddle_def by (simp add: cis_multiple_2pi)
qed

lemma twiddle_cong:
  assumes n: "0 < n" and eq: "a mod int n = b mod int n"
  shows "twiddle n a = twiddle n b"
proof -
  have "int n dvd a - b"
    using eq by (simp add: mod_eq_dvd_iff)
  then obtain t where t: "a - b = int n * t" ..
  have "a = b + int n * t" using t by simp
  then show ?thesis
    by (simp add: twiddle_add twiddle_multiple [OF n])
qed

lemma twiddle_cnj: "cnj (twiddle n a) = twiddle n (- a)"
  by (simp add: twiddle_def cis_cnj)

lemma twiddle_norm: "cmod (twiddle n a) = 1"
  by (simp add: twiddle_def)

lemma sum_rotate_twiddle:
  fixes f :: "nat \<Rightarrow> complex"
  assumes n: "0 < n" and h: "h \<le> n"
  shows "(\<Sum>m<n. f ((h + m) mod n) * twiddle n (- (int m * k)))
       = (\<Sum>j<n. f j * twiddle n (- ((int j - int h) * k)))"
proof (rule sum.reindex_bij_witness [of _ "\<lambda>j. (j + (n - h)) mod n" "\<lambda>m. (h + m) mod n"])
  fix a assume a: "a \<in> {..<n}"
  have "((h + a) mod n + (n - h)) mod n = ((h + a) + (n - h)) mod n"
    by (simp add: mod_add_left_eq)
  also have "(h + a) + (n - h) = a + n" using h by simp
  finally show "((h + a) mod n + (n - h)) mod n = a" using a by simp
  show "(h + a) mod n \<in> {..<n}" using n by simp
  have "(int ((h + a) mod n) - int h) mod int n = int a mod int n"
  proof -
    have "int ((h + a) mod n) = (int h + int a) mod int n"
      by (simp add: zmod_int)
    then have "(int ((h + a) mod n) - int h) mod int n = ((int h + int a) mod int n - int h) mod int n"
      by simp
    also have "\<dots> = ((int h + int a) - int h) mod int n"
      by (simp add: mod_diff_left_eq)
    finally show ?thesis by simp
  qed
  then have "(- ((int ((h + a) mod n) - int h) * k)) mod int n = (- (int a * k)) mod int n"
    by (metis mod_minus_cong mod_mult_cong)
  then have tw: "twiddle n (- ((int ((h + a) mod n) - int h) * k)) = twiddle n (- (int a * k))"
    by (rule twiddle_cong [OF n])
  show "f ((h + a) mod n) * twiddle n (- ((int ((h + a) mod n) - int h) * k))
      = f ((h + a) mod n) * twiddle n (- (int a * k))"
    unfolding tw ..
next
  fix b assume b: "b \<in> {..<n}"
  have "(h + (b + (n - h)) mod n) mod n = (h + (b + (n - h))) mod n"
    by (simp add: mod_add_right_eq)
  also have "h + (b + (n - h)) = b + n" using h by simp
  finally show "(h + (b + (n - h)) mod n) mod n = b" using b by simp
  show "(b + (n - h)) mod n \<in> {..<n}" using n by simp
qed

subsection \<open>The two simulations compared\<close>

lemma np_sum_grid:
  "np_sum (map (\<lambda>my. map (\<lambda>mx. F my mx) [0..<nx]) [0..<ny]) = (\<Sum>my<ny. \<Sum>mx<nx. F my mx)"
  by (simp add: np_sum_def interv_sum_list_conv_sum_set_nat comp_def atLeast0LessThan)

lemma grid_nth:
  "my < ny \<Longrightarrow> mx < nx \<Longrightarrow> map (\<lambda>my. map (\<lambda>mx. F my mx) [0..<nx]) [0..<ny] ! my ! mx = F my mx"
  by simp

lemma np_zeros_nth: "my < ny \<Longrightarrow> mx < nx \<Longrightarrow> np_zeros ny nx ! my ! mx = 0"
  by (simp add: np_zeros_def)

lemma rect_ncols: "rect ny nx m \<Longrightarrow> 0 < ny \<Longrightarrow> ncols m = nx"
  by (cases m) (simp_all add: rect_def ncols_def)

lemma rect_nth_length: "rect ny nx m \<Longrightarrow> i < ny \<Longrightarrow> length (m ! i) = nx"
  by (auto simp: rect_def list_all_length)

lemma blaze_envelope_value_eq:
  "blaze_envelope wavelength gamma wx wy amb n_vec_default = Inr (envelope_value wavelength gamma wx wy amb)"
  unfolding envelope_value_def by (rule blaze_envelope_default)

lemma flat_phase_nth:
  assumes "my < ny" "mx < nx"
  shows "map (\<lambda>my. map (\<lambda>mx. exp (\<i> * complex_of_real (c *
            (p mx * u + q my * v + np_zeros ny nx ! my ! mx * w)))) [0..<nx]) [0..<ny] ! my ! mx
         = cis (c * (p mx * u + q my * v))"
  using assms by (simp add: np_zeros_nth cis_conv_exp)

lemma flat_masked_sum:
  "np_sum (map (\<lambda>my. map (\<lambda>mx. complex_of_real (M my mx) *
      map (\<lambda>my. map (\<lambda>mx. exp (\<i> * complex_of_real (c *
            (p mx * u + q my * v + np_zeros ny nx ! my ! mx * w)))) [0..<nx]) [0..<ny] ! my ! mx)
      [0..<nx]) [0..<ny])
   = (\<Sum>my<ny. \<Sum>mx<nx. complex_of_real (M my mx) * cis (c * (p mx * u + q my * v)))"
  unfolding np_sum_grid
proof (intro sum.cong refl)
  fix my mx assume "my \<in> {..<ny}" "mx \<in> {..<nx}"
  then have b: "my < ny" "mx < nx" by simp_all
  show "complex_of_real (M my mx) *
      map (\<lambda>my. map (\<lambda>mx. exp (\<i> * complex_of_real (c *
            (p mx * u + q my * v + np_zeros ny nx ! my ! mx * w)))) [0..<nx]) [0..<ny] ! my ! mx
      = complex_of_real (M my mx) * cis (c * (p mx * u + q my * v))"
    unfolding flat_phase_nth [OF b] ..
qed

text \<open>The brute-force field in a real direction on a flat device, as a double sum.\<close>

lemma calc_output_angle_flat:
  assumes "rect ny nx pattern" "0 < ny"
  shows "\<exists>D. calc_output_angle pattern wavelength gamma_on gamma_off dx dy wx wy (a0, a1, a2)
        (np_zeros ny nx) (Some b0, Some b1, Some b2)
      = Inr (Some (\<Sum>my<ny. \<Sum>mx<nx.
               complex_of_real (mask_value
                  (wx * wy * envelope_value wavelength gamma_on wx wy (a0 - b0, a1 - b1, a2 - b2))
                  (wx * wy * envelope_value wavelength gamma_off wx wy (a0 - b0, a1 - b1, a2 - b2))
                  (pattern ! my ! mx))
               * cis (2 * pi / wavelength * (dx * real mx * (a0 - b0) + dy * real my * (a1 - b1)))),
             Some (wx * wy * envelope_value wavelength gamma_on wx wy (a0 - b0, a1 - b1, a2 - b2)),
             Some (wx * wy * envelope_value wavelength gamma_off wx wy (a0 - b0, a1 - b1, a2 - b2)),
             Some D)"
proof -
  have len: "length pattern = ny" using assms(1) by (simp add: rect_def)
  have nc: "ncols pattern = nx" using assms by (rule rect_ncols)
  have m: "(if p = 1 then s else if p = 0 then t else 0) = mask_value s t p" for p s t :: real
    by (simp add: mask_value_def)
  show ?thesis
    unfolding calc_output_angle_def blaze_envelope_value_eq Let_def len nc prod.case fst_conv snd_conv
      np_arith option.case sum.case m
    by (simp only: flat_masked_sum [where p = "\<lambda>mx. dx * real mx" and q = "\<lambda>my. dy * real my"]) blast
qed

lemma fftfreq_Inr:
  assumes "0 < n"
  shows "fftfreq n = Inr (map (\<lambda>i. real_of_int (if i < n - n div 2 then int i else int i - int n) / real n) [0..<n])"
proof -
  have N: "(n - 1) div 2 + 1 = n - n div 2" using assms by presburger
  have "real_of_int (if i < n - n div 2 then int i else - int (n div 2) + (int i - int (n - n div 2))) * (1 / real n)
      = real_of_int (if i < n - n div 2 then int i else int i - int n) / real n" for i
    by (simp add: of_nat_diff)
  then show ?thesis
    using assms unfolding fftfreq_def Let_def N by simp
qed

lemma shift_index:
  fixes n i :: nat
  assumes "0 < n" "i < n"
  shows "(n - n div 2 + i) mod n = (if i < n div 2 then n - n div 2 + i else i - n div 2)"
proof (cases "i < n div 2")
  case True
  then have "n - n div 2 + i < n" by linarith
  then show ?thesis using True by simp
next
  case False
  then have e: "n - n div 2 + i = (i - n div 2) + n" using assms by linarith
  have l: "i - n div 2 < n" using assms by linarith
  have "(n - n div 2 + i) mod n = ((i - n div 2) + n) mod n" by (simp only: e)
  also have "\<dots> = (i - n div 2) mod n" by simp
  also have "\<dots> = i - n div 2" using l by simp
  finally show ?thesis using False by simp
qed

lemma fftshift_fftfreq_nth:
  assumes n: "0 < n" and i: "i < n" and fs: "fftfreq n = Inr fs"
  shows "fftshift fs ! i = real_of_int (int i - int (n div 2)) / real n"
proof -
  let ?g = "\<lambda>i. real_of_int (if i < n - n div 2 then int i else int i - int n) / real n"
  have fs_eq: "fs = map ?g [0..<n]"
    using fs fftfreq_Inr [OF n] by simp
  have len: "length fs = n" by (simp add: fs_eq)
  let ?k = "(n - n div 2 + i) mod n"
  have k: "?k < n" using n by simp
  have "fftshift fs ! i = fs ! ?k"
    unfolding fftshift_def len using i by (simp add: nth_rotate len)
  also have "\<dots> = ?g ?k"
    using k by (simp add: fs_eq)
  also have "\<dots> = real_of_int (int i - int (n div 2)) / real n"
  proof (cases "i < n div 2")
    case True
    then have kk: "?k = n - n div 2 + i" using shift_index [OF n i] by simp
    have ge: "\<not> n - n div 2 + i < n - n div 2" by simp
    have e: "int (n - n div 2 + i) - int n = int i - int (n div 2)"
      by (simp add: of_nat_diff)
    show ?thesis unfolding kk by (simp only: ge if_False e)
  next
    case False
    then have kk: "?k = i - n div 2" using shift_index [OF n i] by simp
    have "i - n div 2 < n - n div 2" using False i by linarith
    then show ?thesis unfolding kk using False by (simp add: of_nat_diff)
  qed
  finally show ?thesis .
qed

lemma ifftshift2_nth:
  assumes "rect ny nx X" "my < ny" "mx < nx"
  shows "ifftshift2 X ! my ! mx = X ! ((ny div 2 + my) mod ny) ! ((nx div 2 + mx) mod nx)"
proof -
  have len: "length X = ny" using assms(1) by (simp add: rect_def)
  have r: "(ny div 2 + my) mod ny < ny" using assms(2) by simp
  have rl: "length (X ! ((ny div 2 + my) mod ny)) = nx"
    using rect_nth_length [OF assms(1) r] .
  have "ifftshift2 X ! my = ifftshift (X ! ((ny div 2 + my) mod ny))"
    unfolding ifftshift2_def ifftshift_def [of "map _ X"]
    using r by (simp only: nth_rotate length_map len assms(2) nth_map)
  also have "\<dots> ! mx = X ! ((ny div 2 + my) mod ny) ! ((nx div 2 + mx) mod nx)"
    unfolding ifftshift_def rl by (simp only: nth_rotate rl assms(3))
  finally show ?thesis .
qed

lemma fftshift2_nth:
  assumes "rect ny nx Y" "iy < ny" "ix < nx"
  shows "fftshift2 Y ! iy ! ix = Y ! ((ny - ny div 2 + iy) mod ny) ! ((nx - nx div 2 + ix) mod nx)"
proof -
  have len: "length Y = ny" using assms(1) by (simp add: rect_def)
  have r: "(ny - ny div 2 + iy) mod ny < ny" using assms(2) by simp
  have rl: "length (Y ! ((ny - ny div 2 + iy) mod ny)) = nx"
    using rect_nth_length [OF assms(1) r] .
  have "fftshift2 Y ! iy = fftshift (Y ! ((ny - ny div 2 + iy) mod ny))"
    unfolding fftshift2_def fftshift_def [of "map _ Y"]
    using r by (simp only: nth_rotate length_map len assms(2) nth_map)
  also have "\<dots> ! ix = Y ! ((ny - ny div 2 + iy) mod ny) ! ((nx - nx div 2 + ix) mod nx)"
    unfolding fftshift_def rl by (simp only: nth_rotate rl assms(3))
  finally show ?thesis .
qed

lemma rect_ifftshift2: "rect ny nx X \<Longrightarrow> rect ny nx (ifftshift2 X)"
  by (auto simp: rect_def ifftshift2_def ifftshift_def list_all_iff)

lemma rect_fft2: "rect ny nx X \<Longrightarrow> 0 < ny \<Longrightarrow> rect ny nx (fft2 X)"
  by (simp add: fft2_def Let_def rect_ncols) (simp add: rect_def list_all_iff)

lemma dft_kernel:
  "exp (- (2 * complex_of_real pi * \<i> * complex_of_real (real my * real ky / real ny + real mx * real kx / real nx)))
     = twiddle ny (- (int my * int ky)) * twiddle nx (- (int mx * int kx))"
proof -
  have "- (2 * complex_of_real pi * \<i> * complex_of_real (real my * real ky / real ny + real mx * real kx / real nx))
      = \<i> * complex_of_real (2 * pi * real_of_int (- (int my * int ky)) / real ny
                             + 2 * pi * real_of_int (- (int mx * int kx)) / real nx)"
    by (simp add: algebra_simps)
  then show ?thesis
    unfolding twiddle_def cis_mult by (simp only: cis_conv_exp)
qed

lemma fft2_nth:
  assumes "rect ny nx X" "0 < ny" "ky < ny" "kx < nx"
  shows "fft2 X ! ky ! kx = (\<Sum>my<ny. \<Sum>mx<nx. X ! my ! mx * (twiddle ny (- (int my * int ky)) * twiddle nx (- (int mx * int kx))))"
proof -
  have len: "length X = ny" using assms(1) by (simp add: rect_def)
  have nc: "ncols X = nx" using assms(1,2) by (rule rect_ncols)
  show ?thesis
    unfolding fft2_def Let_def len nc grid_nth [OF assms(3,4)] np_sum_grid dft_kernel ..
qed

lemma shift_index_int:
  assumes "0 < n" "i < n"
  shows "int ((n - n div 2 + i) mod n) mod int n = (int i - int (n div 2)) mod int n"
proof (cases "i < n div 2")
  case True
  then have "(n - n div 2 + i) mod n = n - n div 2 + i"
    using shift_index [OF assms] by simp
  then have "int ((n - n div 2 + i) mod n) = (int i - int (n div 2)) + int n"
    by (simp add: of_nat_diff)
  then have "int ((n - n div 2 + i) mod n) mod int n = ((int i - int (n div 2)) + int n) mod int n"
    by (simp only:)
  also have "\<dots> = (int i - int (n div 2)) mod int n"
    by (rule mod_add_self2)
  finally show ?thesis .
next
  case False
  then have "(n - n div 2 + i) mod n = i - n div 2"
    using shift_index [OF assms] by simp
  moreover have "int (i - n div 2) = int i - int (n div 2)"
    using False by (simp add: of_nat_diff)
  ultimately show ?thesis by simp
qed

lemma twiddle_shift_index:
  assumes "0 < n" "i < n"
  shows "twiddle n (- (a * int ((n - n div 2 + i) mod n))) = twiddle n (- (a * (int i - int (n div 2))))"
proof (rule twiddle_cong [OF assms(1)])
  show "(- (a * int ((n - n div 2 + i) mod n))) mod int n = (- (a * (int i - int (n div 2)))) mod int n"
    using shift_index_int [OF assms] by (metis mod_minus_cong mod_mult_cong)
qed

text \<open>One axis of the centred transform: the rotation of the input becomes a phase.\<close>

lemma centred_axis:
  fixes f :: "nat \<Rightarrow> complex"
  assumes n: "0 < n"
  shows "(\<Sum>m<n. f ((n div 2 + m) mod n) * twiddle n (- (int m * d)))
       = twiddle n (int (n div 2) * d) * (\<Sum>j<n. f j * twiddle n (- (int j * d)))"
proof -
  have h: "n div 2 \<le> n" by simp
  have "(\<Sum>m<n. f ((n div 2 + m) mod n) * twiddle n (- (int m * d)))
      = (\<Sum>j<n. f j * twiddle n (- ((int j - int (n div 2)) * d)))"
    by (rule sum_rotate_twiddle [OF n h])
  also have "\<dots> = (\<Sum>j<n. twiddle n (int (n div 2) * d) * (f j * twiddle n (- (int j * d))))"
  proof (intro sum.cong refl)
    fix j
    have e: "- ((int j - int (n div 2)) * d) = int (n div 2) * d + (- (int j * d))"
      by (simp add: algebra_simps)
    show "f j * twiddle n (- ((int j - int (n div 2)) * d))
             = twiddle n (int (n div 2) * d) * (f j * twiddle n (- (int j * d)))"
      unfolding e twiddle_add by (simp add: mult_ac)
  qed
  also have "\<dots> = twiddle n (int (n div 2) * d) * (\<Sum>j<n. f j * twiddle n (- (int j * d)))"
    by (simp add: sum_distrib_left)
  finally show ?thesis .
qed

text \<open>The centred two-dimensional transform of the source, entry by entry.\<close>

lemma centred_dft_entry:
  assumes X: "rect ny nx X" and ny: "0 < ny" and nx: "0 < nx" and iy: "iy < ny" and ix: "ix < nx"
  shows "fftshift2 (fft2 (ifftshift2 X)) ! iy ! ix =
     twiddle ny (int (ny div 2) * (int iy - int (ny div 2)))
   * twiddle nx (int (nx div 2) * (int ix - int (nx div 2)))
   * (\<Sum>j<ny. \<Sum>l<nx. X ! j ! l * (twiddle ny (- (int j * (int iy - int (ny div 2))))
                                   * twiddle nx (- (int l * (int ix - int (nx div 2))))))"
proof -
  let ?ky = "(ny - ny div 2 + iy) mod ny" and ?kx = "(nx - nx div 2 + ix) mod nx"
  let ?dy = "int iy - int (ny div 2)" and ?dx = "int ix - int (nx div 2)"
  have ky: "?ky < ny" and kx: "?kx < nx" using ny nx by simp_all
  have X': "rect ny nx (ifftshift2 X)" using X by (rule rect_ifftshift2)
  have F: "rect ny nx (fft2 (ifftshift2 X))" using X' ny by (rule rect_fft2)
  have "fftshift2 (fft2 (ifftshift2 X)) ! iy ! ix = fft2 (ifftshift2 X) ! ?ky ! ?kx"
    by (rule fftshift2_nth [OF F iy ix])
  also have "\<dots> = (\<Sum>my<ny. \<Sum>mx<nx. ifftshift2 X ! my ! mx *
        (twiddle ny (- (int my * int ?ky)) * twiddle nx (- (int mx * int ?kx))))"
    by (rule fft2_nth [OF X' ny ky kx])
  also have "\<dots> = (\<Sum>my<ny. \<Sum>mx<nx. X ! ((ny div 2 + my) mod ny) ! ((nx div 2 + mx) mod nx) *
        (twiddle ny (- (int my * ?dy)) * twiddle nx (- (int mx * ?dx))))"
  proof (intro sum.cong refl)
    fix my mx assume "my \<in> {..<ny}" "mx \<in> {..<nx}"
    then have b: "my < ny" "mx < nx" by simp_all
    show "ifftshift2 X ! my ! mx * (twiddle ny (- (int my * int ?ky)) * twiddle nx (- (int mx * int ?kx)))
        = X ! ((ny div 2 + my) mod ny) ! ((nx div 2 + mx) mod nx) *
          (twiddle ny (- (int my * ?dy)) * twiddle nx (- (int mx * ?dx)))"
      unfolding ifftshift2_nth [OF X b] twiddle_shift_index [OF ny iy] twiddle_shift_index [OF nx ix] ..
  qed
  also have "\<dots> = (\<Sum>my<ny. (\<Sum>mx<nx. (X ! ((ny div 2 + my) mod ny)) ! ((nx div 2 + mx) mod nx)
                        * twiddle nx (- (int mx * ?dx))) * twiddle ny (- (int my * ?dy)))"
    by (simp add: sum_distrib_left sum_distrib_right mult_ac)
  also have "\<dots> = (\<Sum>my<ny. (twiddle nx (int (nx div 2) * ?dx) *
                 (\<Sum>l<nx. (X ! ((ny div 2 + my) mod ny)) ! l * twiddle nx (- (int l * ?dx))))
                 * twiddle ny (- (int my * ?dy)))"
    unfolding centred_axis [OF nx, of "\<lambda>l. (X ! _) ! l"] ..
  also have "\<dots> = twiddle nx (int (nx div 2) * ?dx) *
       (\<Sum>my<ny. (\<Sum>l<nx. (X ! ((ny div 2 + my) mod ny)) ! l * twiddle nx (- (int l * ?dx)))
                 * twiddle ny (- (int my * ?dy)))"
    by (simp add: sum_distrib_left sum_distrib_right mult_ac)
  also have "(\<Sum>my<ny. (\<Sum>l<nx. (X ! ((ny div 2 + my) mod ny)) ! l * twiddle nx (- (int l * ?dx)))
                 * twiddle ny (- (int my * ?dy)))
      = twiddle ny (int (ny div 2) * ?dy) *
        (\<Sum>j<ny. (\<Sum>l<nx. X ! j ! l * twiddle nx (- (int l * ?dx))) * twiddle ny (- (int j * ?dy)))"
    by (rule centred_axis [OF ny, of "\<lambda>j. \<Sum>l<nx. X ! j ! l * twiddle nx (- (int l * ?dx))"])
  also have "(\<Sum>j<ny. (\<Sum>l<nx. X ! j ! l * twiddle nx (- (int l * ?dx))) * twiddle ny (- (int j * ?dy)))
      = (\<Sum>j<ny. \<Sum>l<nx. X ! j ! l * (twiddle ny (- (int j * ?dy)) * twiddle nx (- (int l * ?dx))))"
    by (simp add: sum_distrib_left sum_distrib_right mult_ac)
  finally show ?thesis by (simp add: mult_ac)
qed

lemma collect_Inr_nth:
  "collect (map f xs) = Inr vs \<Longrightarrow> length vs = length xs \<and> (\<forall>i<length xs. f (xs ! i) = Inr (vs ! i))"
proof (induction xs arbitrary: vs)
  case Nil
  then show ?case by simp
next
  case (Cons x xs)
  from Cons.prems obtain v ws where v: "f x = Inr v" and ws: "collect (map f xs) = Inr ws"
    and vs: "vs = v # ws"
    by (auto split: sum.splits)
  have "length ws = length xs" "\<forall>i<length xs. f (xs ! i) = Inr (ws ! i)"
    using Cons.IH [OF ws] by simp_all
  then show ?case
    using v vs by (auto simp: nth_Cons split: nat.splits)
qed

lemma collect_upt_nth:
  assumes "collect (map f [0..<n]) = Inr vs" "i < n"
  shows "length vs = n" "f i = Inr (vs ! i)"
  using collect_Inr_nth [OF assms(1)] assms(2) by auto

lemma concat_rect_nth:
  "list_all (\<lambda>r. length r = nx) m \<Longrightarrow> iy < length m \<Longrightarrow> ix < nx
     \<Longrightarrow> concat m ! (iy * nx + ix) = m ! iy ! ix \<and> iy * nx + ix < length (concat m)"
proof (induction m arbitrary: iy)
  case Nil
  then show ?case by simp
next
  case (Cons r m)
  show ?case
  proof (cases iy)
    case 0
    then show ?thesis using Cons.prems by (simp add: nth_append)
  next
    case (Suc j)
    have IH: "concat m ! (j * nx + ix) = m ! j ! ix \<and> j * nx + ix < length (concat m)"
      using Cons.IH [of j] Cons.prems Suc by simp
    have len: "length r = nx" using Cons.prems(1) by simp
    have idx: "Suc j * nx + ix = length r + (j * nx + ix)" by (simp add: len)
    show ?thesis
      unfolding Suc idx using IH by (simp add: nth_append)
  qed
qed

lemma binary_nth:
  assumes "list_all (list_all (\<lambda>p. p = 0 \<or> p = 1)) pattern" "rect ny nx pattern" "j < ny" "l < nx"
  shows "pattern ! j ! l = 0 \<or> pattern ! j ! l = (1::real)"
proof -
  have "l < length (pattern ! j)" using rect_nth_length [OF assms(2,3)] assms(4) by simp
  moreover have "j < length pattern" using assms(2,3) by (simp add: rect_def)
  ultimately show ?thesis using assms(1) by (auto simp: list_all_length)
qed

lemma times_ones_nth:
  assumes "rect ny nx m" "j < ny" "l < nx"
  shows "times_profile m (replicate ny (replicate nx 1)) ! j ! l = complex_of_real (m ! j ! l)"
proof -
  have len: "length m = ny" using assms(1) by (simp add: rect_def)
  have rl: "length (m ! j) = nx" using rect_nth_length [OF assms(1,2)] .
  show ?thesis
    using assms(2,3) by (simp add: times_profile_def len rl)
qed

lemma rect_times_ones: "rect ny nx m \<Longrightarrow> rect ny nx (times_profile m (replicate ny (replicate nx 1)))"
  by (auto simp: rect_def times_profile_def list_all_length)

lemma complement_nth:
  assumes "rect ny nx m" "j < ny" "l < nx"
  shows "complement m ! j ! l = 1 - m ! j ! l"
proof -
  have len: "length m = ny" using assms(1) by (simp add: rect_def)
  have rl: "length (m ! j) = nx" using rect_nth_length [OF assms(1,2)] .
  show ?thesis
    using assms(2,3) by (simp add: complement_def len rl)
qed

lemma rect_complement: "rect ny nx m \<Longrightarrow> rect ny nx (complement m)"
  by (auto simp: rect_def complement_def list_all_length)

lemma brute_phase:
  assumes "0 < wavelength" "0 < dx" "0 < dy" "0 < nx" "0 < ny"
  shows "cis (2 * pi / wavelength *
           (dx * real mx * (a0 - (a0 - wavelength / dx * (real_of_int ox + real_of_int ddx / real nx)))
          + dy * real my * (a1 - (a1 - wavelength / dy * (real_of_int oy + real_of_int ddy / real ny)))))
       = twiddle ny (int my * ddy) * twiddle nx (int mx * ddx)"
proof -
  have "2 * pi / wavelength *
           (dx * real mx * (a0 - (a0 - wavelength / dx * (real_of_int ox + real_of_int ddx / real nx)))
          + dy * real my * (a1 - (a1 - wavelength / dy * (real_of_int oy + real_of_int ddy / real ny))))
      = 2 * pi * real_of_int (int mx * ox + int my * oy)
        + (2 * pi * real_of_int (int my * ddy) / real ny + 2 * pi * real_of_int (int mx * ddx) / real nx)"
    using assms by (simp add: field_simps)
  then show ?thesis
    unfolding twiddle_def cis_mult
    by (simp only: cis_mult [symmetric] cis_multiple_2pi Ints_of_int mult_1)
qed

lemma dft_entry_feasible:
  assumes "dft_entry pd pcd fxs fys wavelength gamma_on gamma_off dx dy wx wy (a0, a1, a2) (ox, oy) iy ix
             = Inr (e, s1, s2, (u, v, Some bz))"
  shows "u = Some (a0 - wavelength / dx * (real_of_int ox + fxs ! ix))
       \<and> v = Some (a1 - wavelength / dy * (real_of_int oy + fys ! iy))
       \<and> e = Some (pd ! iy ! ix * complex_of_real (wx * wy * envelope_value wavelength gamma_on wx wy
                       (a0 - (a0 - wavelength / dx * (real_of_int ox + fxs ! ix)),
                        a1 - (a1 - wavelength / dy * (real_of_int oy + fys ! iy)), a2 - bz))
                  + pcd ! iy ! ix * complex_of_real (wx * wy * envelope_value wavelength gamma_off wx wy
                       (a0 - (a0 - wavelength / dx * (real_of_int ox + fxs ! ix)),
                        a1 - (a1 - wavelength / dy * (real_of_int oy + fys ! iy)), a2 - bz)))"
  using assms
  unfolding dft_entry_def Let_def blaze_envelope_value_eq prod.case sum.case
  by (auto simp: np_sqrt_def cNaN_def split: if_splits option.splits)

lemma mask_value_binary:
  assumes "p = 0 \<or> p = 1"
  shows "complex_of_real (mask_value s t p) = complex_of_real p * complex_of_real s + complex_of_real (1 - p) * complex_of_real t"
  using assms by (auto simp: mask_value_def)

lemma masked_transform:
  fixes T :: "nat \<Rightarrow> nat \<Rightarrow> complex"
  assumes "\<And>j l. j < ny \<Longrightarrow> l < nx \<Longrightarrow> P j l = 0 \<or> P j l = (1::real)"
  shows "(\<Sum>j<ny. \<Sum>l<nx. complex_of_real (P j l) * T j l) * complex_of_real s
       + (\<Sum>j<ny. \<Sum>l<nx. complex_of_real (1 - P j l) * T j l) * complex_of_real t
       = (\<Sum>j<ny. \<Sum>l<nx. complex_of_real (mask_value s t (P j l)) * T j l)"
proof -
  have "(\<Sum>j<ny. \<Sum>l<nx. complex_of_real (mask_value s t (P j l)) * T j l)
      = (\<Sum>j<ny. \<Sum>l<nx. (complex_of_real (P j l) * T j l) * complex_of_real s
                          + (complex_of_real (1 - P j l) * T j l) * complex_of_real t)"
  proof (intro sum.cong refl)
    fix j l assume "j \<in> {..<ny}" "l \<in> {..<nx}"
    then have "P j l = 0 \<or> P j l = 1" using assms by simp
    then show "complex_of_real (mask_value s t (P j l)) * T j l
        = (complex_of_real (P j l) * T j l) * complex_of_real s
          + (complex_of_real (1 - P j l) * T j l) * complex_of_real t"
      unfolding mask_value_binary [OF \<open>P j l = 0 \<or> P j l = 1\<close>] by (simp add: algebra_simps)
  qed
  also have "\<dots> = (\<Sum>j<ny. \<Sum>l<nx. complex_of_real (P j l) * T j l) * complex_of_real s
       + (\<Sum>j<ny. \<Sum>l<nx. complex_of_real (1 - P j l) * T j l) * complex_of_real t"
    by (simp only: sum.distrib sum_distrib_right)
  finally show ?thesis by simp
qed

lemma cnj_masked_sum:
  "cnj (\<Sum>j<ny. \<Sum>l<nx. complex_of_real (M j l) * (twiddle ny (a j) * twiddle nx (b l)))
     = (\<Sum>j<ny. \<Sum>l<nx. complex_of_real (M j l) * (twiddle ny (- a j) * twiddle nx (- b l)))"
  by (simp add: cnj_sum twiddle_cnj)

lemma centre_phase_norm: "cmod (centre_phase ny nx iy ix) = 1"
  by (simp add: centre_phase_def norm_mult twiddle_norm)

text \<open>The cells that \<^verbatim>\<open>simulate_dmd_dft\<close> returns.\<close>

lemma simulate_dmd_dft_cells:
  assumes P: "rect ny nx pattern" and ny: "0 < ny" and nx: "0 < nx"
    and dft: "simulate_dmd_dft pattern efield_profile wavelength gamma_on gamma_off dx dy wx wy
                uvec_in order = Inr (efields_dft, pd, pcd, s_on, s_off, bvec)"
  shows "\<exists>fs_x fs_y cells.
      fftfreq nx = Inr fs_x \<and> fftfreq ny = Inr fs_y
    \<and> pd = fftshift2 (fft2 (ifftshift2 (times_profile pattern efield_profile)))
    \<and> pcd = fftshift2 (fft2 (ifftshift2 (times_profile (complement pattern) efield_profile)))
    \<and> collect (map (\<lambda>iy. collect (map (\<lambda>ix.
           dft_entry pd pcd (fftshift fs_x) (fftshift fs_y) wavelength gamma_on gamma_off dx dy wx wy
             uvec_in order iy ix) [0..<nx])) [0..<ny]) = Inr cells
    \<and> efields_dft = map (map fst) cells \<and> bvec = map (map (snd \<circ> snd \<circ> snd)) cells"
proof -
  have len: "length pattern = ny" using P by (simp add: rect_def)
  have nc: "ncols pattern = nx" using P ny by (rule rect_ncols)
  obtain fs_x where fx: "fftfreq nx = Inr fs_x" using fftfreq_Inr [OF nx] by blast
  obtain fs_y where fy: "fftfreq ny = Inr fs_y" using fftfreq_Inr [OF ny] by blast
  show ?thesis
    using dft unfolding simulate_dmd_dft_def Let_def len nc fx fy sum.case
    by (auto split: sum.splits)
qed

text \<open>One entry of the field of \<^verbatim>\<open>simulate_dmd_dft\<close> in a feasible direction.\<close>

lemma dft_entry_value:
  assumes P: "rect ny nx pattern" and ny: "0 < ny" and nx: "0 < nx"
    and bin: "list_all (list_all (\<lambda>p. p = 0 \<or> p = 1)) pattern"
    and dft: "simulate_dmd_dft pattern (replicate ny (replicate nx 1)) wavelength gamma_on gamma_off
                dx dy wx wy (a0, a1, a2) (ox, oy) = Inr (efields_dft, pd, pcd, s_on, s_off, bvec)"
    and iy: "iy < ny" and ix: "ix < nx"
    and feas: "\<not> np_isnan (snd (snd (bvec ! iy ! ix)))"
  shows "\<exists>bz. bvec ! iy ! ix =
            (Some (a0 - wavelength / dx * (real_of_int ox + real_of_int (int ix - int (nx div 2)) / real nx)),
             Some (a1 - wavelength / dy * (real_of_int oy + real_of_int (int iy - int (ny div 2)) / real ny)),
             Some bz)
        \<and> efields_dft ! iy ! ix = Some (centre_phase ny nx iy ix *
            (\<Sum>j<ny. \<Sum>l<nx. complex_of_real (mask_value
                 (wx * wy * envelope_value wavelength gamma_on wx wy
                    (a0 - (a0 - wavelength / dx * (real_of_int ox + real_of_int (int ix - int (nx div 2)) / real nx)),
                     a1 - (a1 - wavelength / dy * (real_of_int oy + real_of_int (int iy - int (ny div 2)) / real ny)),
                     a2 - bz))
                 (wx * wy * envelope_value wavelength gamma_off wx wy
                    (a0 - (a0 - wavelength / dx * (real_of_int ox + real_of_int (int ix - int (nx div 2)) / real nx)),
                     a1 - (a1 - wavelength / dy * (real_of_int oy + real_of_int (int iy - int (ny div 2)) / real ny)),
                     a2 - bz))
                 (pattern ! j ! l))
               * (twiddle ny (- (int j * (int iy - int (ny div 2))))
                  * twiddle nx (- (int l * (int ix - int (nx div 2)))))))
        \<and> rect ny nx bvec"
proof -
  let ?ones = "replicate ny (replicate nx (1::complex))"
  from simulate_dmd_dft_cells [OF P ny nx dft]
  obtain fs_x fs_y cells where fx: "fftfreq nx = Inr fs_x" and fy: "fftfreq ny = Inr fs_y"
    and pd: "pd = fftshift2 (fft2 (ifftshift2 (times_profile pattern ?ones)))"
    and pcd: "pcd = fftshift2 (fft2 (ifftshift2 (times_profile (complement pattern) ?ones)))"
    and cells: "collect (map (\<lambda>iy. collect (map (\<lambda>ix.
           dft_entry pd pcd (fftshift fs_x) (fftshift fs_y) wavelength gamma_on gamma_off dx dy wx wy
             (a0, a1, a2) (ox, oy) iy ix) [0..<nx])) [0..<ny]) = Inr cells"
    and ef: "efields_dft = map (map fst) cells" and bv: "bvec = map (map (snd \<circ> snd \<circ> snd)) cells"
    by blast
  have clen: "length cells = ny"
    using collect_upt_nth(1) [OF cells iy] .
  have rows: "collect (map (\<lambda>ix. dft_entry pd pcd (fftshift fs_x) (fftshift fs_y) wavelength gamma_on
      gamma_off dx dy wx wy (a0, a1, a2) (ox, oy) i ix) [0..<nx]) = Inr (cells ! i)" if "i < ny" for i
    using collect_upt_nth(2) [OF cells that] .
  have rlen: "length (cells ! i) = nx" if "i < ny" for i
    using collect_upt_nth(1) [OF rows [OF that] ix] .
  have rb: "rect ny nx bvec"
    unfolding bv rect_def using clen rlen by (simp add: list_all_length)
  have cell: "dft_entry pd pcd (fftshift fs_x) (fftshift fs_y) wavelength gamma_on gamma_off dx dy wx wy
      (a0, a1, a2) (ox, oy) iy ix = Inr (cells ! iy ! ix)"
    using collect_upt_nth(2) [OF rows [OF iy] ix] .
  obtain e s1 s2 u v z where c: "cells ! iy ! ix = (e, s1, s2, (u, v, z))"
    by (metis prod.exhaust)
  have bnth: "bvec ! iy ! ix = (u, v, z)"
    unfolding bv using iy ix clen rlen [OF iy] by (simp add: c)
  have enth: "efields_dft ! iy ! ix = e"
    unfolding ef using iy ix clen rlen [OF iy] by (simp add: c)
  obtain bz where z: "z = Some bz"
    using feas unfolding bnth by (cases z) (simp_all add: np_isnan_def)
  note val = dft_entry_feasible [OF cell [unfolded c z]]
  have fxs: "fftshift fs_x ! ix = real_of_int (int ix - int (nx div 2)) / real nx"
    by (rule fftshift_fftfreq_nth [OF nx ix fx])
  have fys: "fftshift fs_y ! iy = real_of_int (int iy - int (ny div 2)) / real ny"
    by (rule fftshift_fftfreq_nth [OF ny iy fy])
  have X1: "rect ny nx (times_profile pattern ?ones)"
    using P by (rule rect_times_ones)
  have Pc: "rect ny nx (complement pattern)"
    using P by (rule rect_complement)
  have X2: "rect ny nx (times_profile (complement pattern) ?ones)"
    using Pc by (rule rect_times_ones)
  let ?T = "\<lambda>j l. twiddle ny (- (int j * (int iy - int (ny div 2))))
                  * twiddle nx (- (int l * (int ix - int (nx div 2))))"
  have pd_val: "pd ! iy ! ix = centre_phase ny nx iy ix *
      (\<Sum>j<ny. \<Sum>l<nx. complex_of_real (pattern ! j ! l) * ?T j l)"
  proof -
    have "(\<Sum>j<ny. \<Sum>l<nx. times_profile pattern ?ones ! j ! l * ?T j l)
        = (\<Sum>j<ny. \<Sum>l<nx. complex_of_real (pattern ! j ! l) * ?T j l)"
      by (intro sum.cong refl) (simp add: times_ones_nth [OF P])
    then show ?thesis
      unfolding pd centred_dft_entry [OF X1 ny nx iy ix] centre_phase_def by simp
  qed
  have pcd_val: "pcd ! iy ! ix = centre_phase ny nx iy ix *
      (\<Sum>j<ny. \<Sum>l<nx. complex_of_real (1 - pattern ! j ! l) * ?T j l)"
  proof -
    have "(\<Sum>j<ny. \<Sum>l<nx. times_profile (complement pattern) ?ones ! j ! l * ?T j l)
        = (\<Sum>j<ny. \<Sum>l<nx. complex_of_real (1 - pattern ! j ! l) * ?T j l)"
      by (intro sum.cong refl) (simp add: times_ones_nth [OF Pc] complement_nth [OF P])
    then show ?thesis
      unfolding pcd centred_dft_entry [OF X2 ny nx iy ix] centre_phase_def by simp
  qed
  have binP: "pattern ! j ! l = 0 \<or> pattern ! j ! l = 1" if "j < ny" "l < nx" for j l
    using binary_nth [OF bin P that] .
  have mt: "(\<Sum>j<ny. \<Sum>l<nx. complex_of_real (pattern ! j ! l) * ?T j l) * complex_of_real s
            + (\<Sum>j<ny. \<Sum>l<nx. complex_of_real (1 - pattern ! j ! l) * ?T j l) * complex_of_real t
            = (\<Sum>j<ny. \<Sum>l<nx. complex_of_real (mask_value s t (pattern ! j ! l)) * ?T j l)" for s t
    by (rule masked_transform [of ny nx "\<lambda>j l. pattern ! j ! l" ?T, OF binP])
  have comb: "centre_phase ny nx iy ix * (\<Sum>j<ny. \<Sum>l<nx. complex_of_real (pattern ! j ! l) * ?T j l)
              * complex_of_real s
            + centre_phase ny nx iy ix * (\<Sum>j<ny. \<Sum>l<nx. complex_of_real (1 - pattern ! j ! l) * ?T j l)
              * complex_of_real t
            = centre_phase ny nx iy ix *
              (\<Sum>j<ny. \<Sum>l<nx. complex_of_real (mask_value s t (pattern ! j ! l)) * ?T j l)" for s t
    unfolding mt [symmetric] by (simp only: distrib_left mult.assoc)
  show ?thesis
    using val rb unfolding bnth enth z fxs fys pd_val pcd_val comb
    by (intro exI [of _ bz]) simp
qed

text \<open>The field of \<^verbatim>\<open>simulate_dmd\<close> at one direction of the grid of \<^verbatim>\<open>simulate_dmd_dft\<close>.\<close>

lemma brute_entry_value:
  assumes P: "rect ny nx pattern" and ny: "0 < ny" and nx: "0 < nx"
    and bin: "list_all (list_all (\<lambda>p. p = 0 \<or> p = 1)) pattern"
    and w: "wx \<le> dx" "wy \<le> dy"
    and pos: "0 < wavelength" "0 < dx" "0 < dy"
    and rb: "rect ny nx bvec" and iy: "iy < ny" and ix: "ix < nx"
    and b: "bvec ! iy ! ix =
            (Some (a0 - wavelength / dx * (real_of_int ox + real_of_int ddx / real nx)),
             Some (a1 - wavelength / dy * (real_of_int oy + real_of_int ddy / real ny)),
             Some bz)"
  shows "\<exists>efields s1 s2 d.
      simulate_dmd pattern wavelength gamma_on gamma_off dx dy wx wy (a0, a1, a2) (concat bvec) None
        = Inr (efields, s1, s2, d)
    \<and> efields ! (iy * nx + ix) = Some
        (\<Sum>j<ny. \<Sum>l<nx. complex_of_real (mask_value
                 (wx * wy * envelope_value wavelength gamma_on wx wy
                    (a0 - (a0 - wavelength / dx * (real_of_int ox + real_of_int ddx / real nx)),
                     a1 - (a1 - wavelength / dy * (real_of_int oy + real_of_int ddy / real ny)),
                     a2 - bz))
                 (wx * wy * envelope_value wavelength gamma_off wx wy
                    (a0 - (a0 - wavelength / dx * (real_of_int ox + real_of_int ddx / real nx)),
                     a1 - (a1 - wavelength / dy * (real_of_int oy + real_of_int ddy / real ny)),
                     a2 - bz))
                 (pattern ! j ! l))
               * (twiddle ny (int j * ddy) * twiddle nx (int l * ddx)))"
proof -
  let ?b0 = "a0 - wavelength / dx * (real_of_int ox + real_of_int ddx / real nx)"
  let ?b1 = "a1 - wavelength / dy * (real_of_int oy + real_of_int ddy / real ny)"
  let ?s = "wx * wy * envelope_value wavelength gamma_on wx wy (a0 - ?b0, a1 - ?b1, a2 - bz)"
  let ?t = "wx * wy * envelope_value wavelength gamma_off wx wy (a0 - ?b0, a1 - ?b1, a2 - bz)"
  have len: "length pattern = ny" using P by (simp add: rect_def)
  have nc: "ncols pattern = nx" using P ny by (rule rect_ncols)
  define f where "f = calc_output_angle pattern wavelength gamma_on gamma_off dx dy wx wy (a0, a1, a2)
      (np_zeros ny nx)"
  have "\<And>x. x \<in> set (concat bvec) \<Longrightarrow> \<exists>v. f x = Inr v"
    unfolding f_def by (rule calc_output_angle_total)
  from collect_total [of "concat bvec" f, OF this]
  obtain vs where vs: "collect (map f (concat bvec)) = Inr vs" "length vs = length (concat bvec)"
      "\<forall>i<length (concat bvec). f (concat bvec ! i) = Inr (vs ! i)"
    by blast
  have la: "list_all (\<lambda>r. length r = nx) bvec" and bl: "iy < length bvec"
    using rb iy by (simp_all add: rect_def)
  from concat_rect_nth [OF la bl ix]
  have k: "concat bvec ! (iy * nx + ix) = bvec ! iy ! ix" "iy * nx + ix < length (concat bvec)"
    by simp_all
  have "0 < length vs" using k(2) unfolding vs(2) by linarith
  then have ne: "vs \<noteq> []" by blast
  have sim: "simulate_dmd pattern wavelength gamma_on gamma_off dx dy wx wy (a0, a1, a2) (concat bvec) None
       = Inr (map fst vs, map (fst \<circ> snd) vs, map (fst \<circ> snd \<circ> snd) vs, map (snd \<circ> snd \<circ> snd) vs)"
    unfolding simulate_dmd_def Let_def option.case len nc f_def [symmetric] vs(1)
    using bin w ne by simp
  obtain D where flat: "f (Some ?b0, Some ?b1, Some bz) =
      Inr (Some (\<Sum>my<ny. \<Sum>mx<nx. complex_of_real (mask_value ?s ?t (pattern ! my ! mx))
               * cis (2 * pi / wavelength * (dx * real mx * (a0 - ?b0) + dy * real my * (a1 - ?b1)))),
           Some ?s, Some ?t, Some D)"
    unfolding f_def using calc_output_angle_flat [OF P ny] by blast
  have "f (concat bvec ! (iy * nx + ix)) = Inr (vs ! (iy * nx + ix))"
    using vs(3) k(2) by blast
  then have "Inr (vs ! (iy * nx + ix)) =
      (Inr (Some (\<Sum>my<ny. \<Sum>mx<nx. complex_of_real (mask_value ?s ?t (pattern ! my ! mx))
               * cis (2 * pi / wavelength * (dx * real mx * (a0 - ?b0) + dy * real my * (a1 - ?b1)))),
           Some ?s, Some ?t, Some D)
        :: py_error + (complex option \<times> npfloat \<times> npfloat \<times> complex option))"
    unfolding k(1) b flat by (rule sym)
  then have "vs ! (iy * nx + ix) =
      (Some (\<Sum>my<ny. \<Sum>mx<nx. complex_of_real (mask_value ?s ?t (pattern ! my ! mx))
               * cis (2 * pi / wavelength * (dx * real mx * (a0 - ?b0) + dy * real my * (a1 - ?b1)))),
           Some ?s, Some ?t, Some D)"
    by (simp only: sum.inject)
  then have vk: "fst (vs ! (iy * nx + ix)) =
      Some (\<Sum>my<ny. \<Sum>mx<nx. complex_of_real (mask_value ?s ?t (pattern ! my ! mx))
               * cis (2 * pi / wavelength * (dx * real mx * (a0 - ?b0) + dy * real my * (a1 - ?b1))))"
    by (simp only: fst_conv)
  have ph: "(\<Sum>my<ny. \<Sum>mx<nx. complex_of_real (mask_value ?s ?t (pattern ! my ! mx))
               * cis (2 * pi / wavelength * (dx * real mx * (a0 - ?b0) + dy * real my * (a1 - ?b1))))
          = (\<Sum>j<ny. \<Sum>l<nx. complex_of_real (mask_value ?s ?t (pattern ! j ! l))
               * (twiddle ny (int j * ddy) * twiddle nx (int l * ddx)))"
    unfolding brute_phase [OF pos nx ny] ..
  have "map fst vs ! (iy * nx + ix) = fst (vs ! (iy * nx + ix))"
    using k(2) vs(2) by simp
  then show ?thesis
    using sim unfolding vk ph by blast
qed

text \<open>
  The relation between the two fields in the code: for every binary pattern of \<open>ny\<close> by
  \<open>nx\<close> mirrors, geometry with \<open>wx \<le> dx\<close> and \<open>wy \<le> dy\<close>, positive wavelength and pitches,
  unit input vector, uniform unit illumination profile and flat device, and for every
  direction \<open>(iy, ix)\<close> of the grid \<^verbatim>\<open>bvec\<close> of \<^verbatim>\<open>simulate_dmd_dft\<close> whose z component is
  not NaN, the field of \<^verbatim>\<open>simulate_dmd_dft\<close> at \<open>(iy, ix)\<close> is the complex conjugate of the
  field that \<^verbatim>\<open>simulate_dmd\<close> returns for that direction, multiplied by the phase factor
  \<open>exp (2 pi i (\<lfloor>ny / 2\<rfloor> fy + \<lfloor>nx / 2\<rfloor> fx))\<close> of modulus 1, where \<open>fy = (iy - \<lfloor>ny / 2\<rfloor>) / ny\<close>
  and \<open>fx = (ix - \<lfloor>nx / 2\<rfloor>) / nx\<close> are the frequencies of the grid. The sum of
  \<^verbatim>\<open>simulate_dmd\<close> has the kernel \<open>exp (+ 2 pi i (mx fx + my fy))\<close> from the mirror of index
  0, the transform of \<^verbatim>\<open>simulate_dmd_dft\<close> has the kernel \<open>exp (- 2 pi i \<dots>)\<close> on the
  pattern rotated by \<^verbatim>\<open>ifftshift\<close>. The two fields have the same modulus.
\<close>

lemma dft_field_conjugate_of_brute_force:
  assumes P: "rect ny nx pattern" and ny: "0 < ny" and nx: "0 < nx"
    and bin: "list_all (list_all (\<lambda>p. p = 0 \<or> p = 1)) pattern"
    and w: "wx \<le> dx" "wy \<le> dy"
    and pos: "0 < wavelength" "0 < dx" "0 < dy"
    and unit: "norm2 uvec_in = 1"
    and dft: "simulate_dmd_dft pattern (replicate ny (replicate nx 1)) wavelength gamma_on gamma_off
                dx dy wx wy uvec_in order = Inr (efields_dft, pd, pcd, s_on, s_off, bvec)"
    and iy: "iy < ny" and ix: "ix < nx"
    and feas: "\<not> np_isnan (snd (snd (bvec ! iy ! ix)))"
  shows "\<exists>efields s1 s2 d E.
      simulate_dmd pattern wavelength gamma_on gamma_off dx dy wx wy uvec_in (concat bvec) None
        = Inr (efields, s1, s2, d)
    \<and> efields ! (iy * nx + ix) = Some E
    \<and> efields_dft ! iy ! ix = Some (centre_phase ny nx iy ix * cnj E)
    \<and> map_option cmod (efields_dft ! iy ! ix) = Some (cmod E)"
proof -
  obtain a0 a1 a2 where a: "uvec_in = (a0, a1, a2)" by (cases uvec_in)
  obtain ox oy where ord: "order = (ox, oy)" by (cases order)
  let ?ddx = "int ix - int (nx div 2)" and ?ddy = "int iy - int (ny div 2)"
  from dft_entry_value [OF P ny nx bin dft [unfolded a ord] iy ix feas]
  obtain bz where b: "bvec ! iy ! ix =
            (Some (a0 - wavelength / dx * (real_of_int ox + real_of_int ?ddx / real nx)),
             Some (a1 - wavelength / dy * (real_of_int oy + real_of_int ?ddy / real ny)),
             Some bz)"
    and e: "efields_dft ! iy ! ix = Some (centre_phase ny nx iy ix *
            (\<Sum>j<ny. \<Sum>l<nx. complex_of_real (mask_value
                 (wx * wy * envelope_value wavelength gamma_on wx wy
                    (a0 - (a0 - wavelength / dx * (real_of_int ox + real_of_int ?ddx / real nx)),
                     a1 - (a1 - wavelength / dy * (real_of_int oy + real_of_int ?ddy / real ny)),
                     a2 - bz))
                 (wx * wy * envelope_value wavelength gamma_off wx wy
                    (a0 - (a0 - wavelength / dx * (real_of_int ox + real_of_int ?ddx / real nx)),
                     a1 - (a1 - wavelength / dy * (real_of_int oy + real_of_int ?ddy / real ny)),
                     a2 - bz))
                 (pattern ! j ! l))
               * (twiddle ny (- (int j * ?ddy)) * twiddle nx (- (int l * ?ddx)))))"
    and rb: "rect ny nx bvec"
    by blast
  from brute_entry_value [OF P ny nx bin w pos rb iy ix b, of gamma_on gamma_off a2]
  obtain efields s1 s2 d where sim:
      "simulate_dmd pattern wavelength gamma_on gamma_off dx dy wx wy (a0, a1, a2) (concat bvec) None
        = Inr (efields, s1, s2, d)"
    and E: "efields ! (iy * nx + ix) = Some
        (\<Sum>j<ny. \<Sum>l<nx. complex_of_real (mask_value
                 (wx * wy * envelope_value wavelength gamma_on wx wy
                    (a0 - (a0 - wavelength / dx * (real_of_int ox + real_of_int ?ddx / real nx)),
                     a1 - (a1 - wavelength / dy * (real_of_int oy + real_of_int ?ddy / real ny)),
                     a2 - bz))
                 (wx * wy * envelope_value wavelength gamma_off wx wy
                    (a0 - (a0 - wavelength / dx * (real_of_int ox + real_of_int ?ddx / real nx)),
                     a1 - (a1 - wavelength / dy * (real_of_int oy + real_of_int ?ddy / real ny)),
                     a2 - bz))
                 (pattern ! j ! l))
               * (twiddle ny (int j * ?ddy) * twiddle nx (int l * ?ddx)))"
    by blast
  define E0 where "E0 =
        (\<Sum>j<ny. \<Sum>l<nx. complex_of_real (mask_value
                 (wx * wy * envelope_value wavelength gamma_on wx wy
                    (a0 - (a0 - wavelength / dx * (real_of_int ox + real_of_int ?ddx / real nx)),
                     a1 - (a1 - wavelength / dy * (real_of_int oy + real_of_int ?ddy / real ny)),
                     a2 - bz))
                 (wx * wy * envelope_value wavelength gamma_off wx wy
                    (a0 - (a0 - wavelength / dx * (real_of_int ox + real_of_int ?ddx / real nx)),
                     a1 - (a1 - wavelength / dy * (real_of_int oy + real_of_int ?ddy / real ny)),
                     a2 - bz))
                 (pattern ! j ! l))
               * (twiddle ny (int j * ?ddy) * twiddle nx (int l * ?ddx)))"
  have E': "efields ! (iy * nx + ix) = Some E0"
    using E unfolding E0_def .
  have e': "efields_dft ! iy ! ix = Some (centre_phase ny nx iy ix * cnj E0)"
    unfolding E0_def cnj_masked_sum using e .
  have m: "map_option cmod (efields_dft ! iy ! ix) = Some (cmod E0)"
    unfolding e' by (simp add: norm_mult centre_phase_norm)
  show ?thesis
    unfolding a using sim E' e' m by blast
qed

lemma upt_2: "[0..<2] = [0, Suc 0]" by (simp add: upt_rec numeral_2_eq_2)
lemma upt_1: "[0..<1] = [0]" by simp

lemma fftfreq_2: "fftfreq 2 = Inr [0, - 1 / 2]"
  by (simp add: fftfreq_def Let_def upt_2)

lemma fftfreq_1: "fftfreq (Suc 0) = Inr [0]"
  by (simp add: fftfreq_def Let_def)

lemma fftshift_pair: "fftshift [a, b] = [b, a]"
  by (simp add: fftshift_def)

lemma ifftshift_pair: "ifftshift [a, b] = [b, a]"
  by (simp add: ifftshift_def)

lemma shift_single: "fftshift [a] = [a]" "ifftshift [a] = [a]"
  by (simp_all add: fftshift_def ifftshift_def)

lemma exp_minus_pi_i: "exp (- (complex_of_real pi * \<i>)) = - 1"
proof -
  have "exp (- (complex_of_real pi * \<i>)) = cis (- pi)"
    by (simp add: cis_conv_exp mult.commute)
  also have "\<dots> = cnj (cis pi)" by (simp only: cis_cnj)
  also have "\<dots> = - 1" by simp
  finally show ?thesis .
qed

lemma fft2_row_pair: "fft2 [[a, b]] = [[a + b, a - b]]"
  by (simp add: fft2_def Let_def ncols_def np_sum_def upt_2 exp_minus_pi_i)

lemma pattern_dft_example:
  "fftshift2 (fft2 (ifftshift2 (times_profile [[1, 0]] [[1, 1]]))) = [[- 1, 1]]"
  "fftshift2 (fft2 (ifftshift2 (times_profile (complement [[1, 0]]) [[1, 1]]))) = [[1, 1]]"
  by (simp_all add: times_profile_def complement_def ifftshift2_def fftshift2_def fft2_row_pair
      ifftshift_pair fftshift_pair shift_single)

lemma sinc_values: "sinc_fn 0 = 1" "sinc_fn (- pi) = 0" "sinc_fn (- (pi / 2)) = 2 / pi"
  by (simp_all add: sinc_fn_def)

lemma envelope_on_example: "envelope_value 1 0 1 2 (- (1 / 2), 0, z) = 2 / pi"
  by (simp add: envelope_value_def spec_A_plus_def spec_A_minus_def sinc_values)

lemma envelope_off_example: "envelope_value 1 pi 1 2 (- (1 / 2), 0, z) = 0"
  by (simp add: envelope_value_def spec_A_plus_def spec_A_minus_def sinc_values)

lemma envelope_dc_example: "envelope_value 1 0 1 2 (0, 0, z) = 1" "envelope_value 1 pi 1 2 (0, 0, z) = 1"
  by (simp_all add: envelope_value_def spec_A_plus_def spec_A_minus_def sinc_values)

lemma dft_entry_example_00:
  "dft_entry [[- 1, 1]] [[1, 1]] [- 1 / 2, 0] [0] 1 0 pi 1 2 1 2 (0, 0, - 1) (0, 0) 0 0
     = Inr (Some (- (4 / complex_of_real pi)), Some (4 / pi), Some 0, (Some (1 / 2), Some 0, Some (sqrt 3 / 2)))"
  unfolding dft_entry_def Let_def blaze_envelope_value_eq prod.case
  by (simp add: envelope_on_example envelope_off_example power2_eq_square real_sqrt_divide)

lemma dft_entry_example_01:
  "dft_entry [[- 1, 1]] [[1, 1]] [- 1 / 2, 0] [0] 1 0 pi 1 2 1 2 (0, 0, - 1) (0, 0) 0 (Suc 0)
     = Inr (Some 4, Some 2, Some 2, (Some 0, Some 0, Some 1))"
  unfolding dft_entry_def Let_def blaze_envelope_value_eq prod.case
  by (simp add: envelope_dc_example)

lemma simulate_dmd_dft_example:
  "simulate_dmd_dft [[1, 0]] [[1, 1]] 1 0 pi 1 2 1 2 (0, 0, - 1) (0, 0)
    = Inr ([[Some (- (4 / complex_of_real pi)), Some 4]], [[- 1, 1]], [[1, 1]],
           [[Some (4 / pi), Some 2]], [[Some 0, Some 2]],
           [[(Some (1 / 2), Some 0, Some (sqrt 3 / 2)), (Some 0, Some 0, Some 1)]])"
proof -
  have n1: "length [[1::real, 0]] = 1" by simp
  have n2: "ncols [[1::real, 0]] = 2" by (simp add: ncols_def)
  have f1: "fftfreq 1 = Inr [0]" using fftfreq_1 by simp
  show ?thesis
    unfolding simulate_dmd_dft_def Let_def n1 n2 fftfreq_2 f1 sum.case fftshift_pair shift_single
      pattern_dft_example upt_2 upt_1 list.map collect.simps dft_entry_example_00 dft_entry_example_01
    by simp
qed

lemma exp_i_minus_pi: "exp (\<i> * complex_of_real (- pi)) = - 1"
proof -
  have "exp (\<i> * complex_of_real (- pi)) = cis (- pi)" by (simp only: cis_conv_exp)
  also have "\<dots> = cnj (cis pi)" by (simp only: cis_cnj)
  also have "\<dots> = - 1" by simp
  finally show ?thesis .
qed

lemma calc_output_angle_example_0:
  "calc_output_angle [[1, 0]] 1 0 pi 1 2 1 2 (0, 0, - 1) (np_zeros 1 2) (Some (1 / 2), Some 0, Some (sqrt 3 / 2))
    = Inr (Some (4 / complex_of_real pi), Some (4 / pi), Some 0, Some 0)"
proof -
  have n1: "length [[1::real, 0]] = 1" by simp
  have n2: "ncols [[1::real, 0]] = 2" by (simp add: ncols_def)
  have z: "np_zeros 1 2 = [[0, 0]]" by (simp add: np_zeros_def numeral_2_eq_2)
  have p: "2 * pi / 1 * (1 * real (Suc 0) * (0 - 1 / 2) + 2 * real (0::nat) * (0 - 0) + [[0, 0]] ! 0 ! Suc 0 * (- 1 - sqrt 3 / 2)) = - pi"
    by simp
  have q: "2 * pi / 1 * (1 * real (0::nat) * (0 - 1 / 2) + 2 * real (0::nat) * (0 - 0) + [[0, 0::real]] ! 0 ! 0 * (- 1 - sqrt 3 / 2)) = 0"
    by simp
  have e1: "envelope_value 1 0 1 2 (0 - 1 / 2, 0 - 0, - 1 - sqrt 3 / 2) = 2 / pi"
    using envelope_on_example [of "- 1 - sqrt 3 / 2"] by simp
  have e2: "envelope_value 1 pi 1 2 (0 - 1 / 2, 0 - 0, - 1 - sqrt 3 / 2) = 0"
    using envelope_off_example [of "- 1 - sqrt 3 / 2"] by simp
  show ?thesis
    unfolding calc_output_angle_def Let_def n1 n2 z prod.case fst_conv snd_conv np_arith option.case
      blaze_envelope_value_eq sum.case upt_2 upt_1 list.map p q e1 e2 exp_i_minus_pi
    by (simp add: np_sum_def)
qed

lemma calc_output_angle_example_1:
  "calc_output_angle [[1, 0]] 1 0 pi 1 2 1 2 (0, 0, - 1) (np_zeros 1 2) (Some 0, Some 0, Some 1)
    = Inr (Some 4, Some 2, Some 2, Some 2)"
proof -
  have n1: "length [[1::real, 0]] = 1" by simp
  have n2: "ncols [[1::real, 0]] = 2" by (simp add: ncols_def)
  have z: "np_zeros 1 2 = [[0, 0]]" by (simp add: np_zeros_def numeral_2_eq_2)
  have e1: "envelope_value 1 0 1 2 (0 - 0, 0 - 0, - 1 - 1) = 1"
    using envelope_dc_example(1) [of "- 2"] by simp
  have e2: "envelope_value 1 pi 1 2 (0 - 0, 0 - 0, - 1 - 1) = 1"
    using envelope_dc_example(2) [of "- 2"] by simp
  show ?thesis
    unfolding calc_output_angle_def Let_def n1 n2 z prod.case fst_conv snd_conv np_arith option.case
      blaze_envelope_value_eq sum.case upt_2 upt_1 list.map e1 e2
    by (simp add: np_sum_def)
qed

lemma simulate_dmd_example:
  "simulate_dmd [[1, 0]] 1 0 pi 1 2 1 2 (0, 0, - 1)
      (concat [[(Some (1 / 2), Some 0, Some (sqrt 3 / 2)), (Some 0, Some 0, Some 1)]]) None
    = Inr ([Some (4 / complex_of_real pi), Some 4], [Some (4 / pi), Some 2], [Some 0, Some 2],
           [Some 0, Some 2])"
proof -
  have n1: "length [[1::real, 0]] = 1" by simp
  have n2: "ncols [[1::real, 0]] = 2" by (simp add: ncols_def)
  show ?thesis
    unfolding simulate_dmd_def Let_def option.case n1 n2 concat.simps append.simps list.map
      calc_output_angle_example_0 calc_output_angle_example_1 collect.simps sum.case
    by simp
qed

lemma dft_field_conjugate_of_brute_force_example:
  "\<exists>efields s1 s2 d E.
      simulate_dmd [[1, 0]] 1 0 pi 1 2 1 2 (0, 0, - 1)
         (concat [[(Some (1 / 2), Some 0, Some (sqrt 3 / 2)), (Some 0, Some 0, Some 1)]]) None
        = Inr (efields, s1, s2, d)
    \<and> efields ! (0 * 2 + 0) = Some E
    \<and> [[Some (- (4 / complex_of_real pi)), Some 4]] ! 0 ! 0 = Some (centre_phase 1 2 0 0 * cnj E)
    \<and> map_option cmod ([[Some (- (4 / complex_of_real pi)), Some 4]] ! 0 ! 0) = Some (cmod E)"
proof -
  have h1: "rect 1 2 [[1::real, 0]]" by (simp add: rect_def)
  have h2: "list_all (list_all (\<lambda>p. p = 0 \<or> p = 1)) [[1::real, 0]]" by simp
  have h3: "norm2 (0, 0, - 1) = 1" by (simp add: norm2_def)
  have ones: "replicate 1 (replicate 2 (1::complex)) = [[1, 1]]" by (simp add: numeral_2_eq_2)
  have h4: "simulate_dmd_dft [[1, 0]] (replicate 1 (replicate 2 1)) 1 0 pi 1 2 1 2 (0, 0, - 1) (0, 0)
    = Inr ([[Some (- (4 / complex_of_real pi)), Some 4]], [[- 1, 1]], [[1, 1]],
           [[Some (4 / pi), Some 2]], [[Some 0, Some 2]],
           [[(Some (1 / 2), Some 0, Some (sqrt 3 / 2)), (Some 0, Some 0, Some 1)]])"
    unfolding ones by (rule simulate_dmd_dft_example)
  have h5: "\<not> np_isnan (snd (snd ([[(Some (1 / 2), Some 0, Some (sqrt 3 / 2)), (Some 0, Some 0, Some 1)]] ! 0 ! 0)))"
    by simp
  show ?thesis
    by (rule dft_field_conjugate_of_brute_force [where ny = 1 and nx = 2 and iy = 0 and ix = 0,
          OF h1 _ _ h2 _ _ _ _ _ h3 h4 _ _ h5]) simp_all
qed

text \<open>
  C1: the claim is that \<^verbatim>\<open>simulate_dmd\<close>, evaluated at the grid of directions of
  \<^verbatim>\<open>simulate_dmd_dft\<close>, returns the fields of \<^verbatim>\<open>simulate_dmd_dft\<close>. The code does not: for
  the pattern of one row with an ON and an OFF mirror, wavelength 1, pitches 1 and 2,
  widths 1 and 2, mirror angles 0 and \<open>pi\<close>, input vector \<open>(0, 0, - 1)\<close>, uniform unit
  profile and order \<open>(0, 0)\<close>, the field of \<^verbatim>\<open>simulate_dmd_dft\<close> at the first direction of
  its grid is \<open>- 4 / pi\<close>, and \<^verbatim>\<open>simulate_dmd\<close> returns \<open>4 / pi\<close> for that direction.
\<close>

theorem dft_field_differs:
  "list_all (list_all (\<lambda>p. p = 0 \<or> p = 1)) [[1::real, 0]] \<and> (1::real) \<le> 1 \<and> (2::real) \<le> 2
   \<and> norm2 (0, 0, - 1) = 1
   \<and> simulate_dmd_dft [[1, 0]] [[1, 1]] 1 0 pi 1 2 1 2 (0, 0, - 1) (0, 0)
      = Inr ([[Some (- (4 / complex_of_real pi)), Some 4]], [[- 1, 1]], [[1, 1]],
             [[Some (4 / pi), Some 2]], [[Some 0, Some 2]],
             [[(Some (1 / 2), Some 0, Some (sqrt 3 / 2)), (Some 0, Some 0, Some 1)]])
   \<and> simulate_dmd [[1, 0]] 1 0 pi 1 2 1 2 (0, 0, - 1)
        (concat [[(Some (1 / 2), Some 0, Some (sqrt 3 / 2)), (Some 0, Some 0, Some 1)]]) None
      = Inr ([Some (4 / complex_of_real pi), Some 4], [Some (4 / pi), Some 2], [Some 0, Some 2],
             [Some 0, Some 2])
   \<and> [[Some (- (4 / complex_of_real pi)), Some 4]] ! 0 ! 0 \<noteq> [Some (4 / complex_of_real pi), Some 4] ! 0"
  unfolding simulate_dmd_dft_example simulate_dmd_example
  by (simp add: norm2_def)

end
